theory Spec2Isabelle
  imports Main "HOL-Library.AList" "HOL-Library.List_Lexorder" "HOL-Library.Char_ord"
begin

section \<open>Python values, dictionaries and paths\<close>

text \<open>
  The module \<^verbatim>\<open>Tensile/BenchmarkProblems.py\<close> works on Python dictionaries of
  parameters. A dictionary is an association list in insertion order; parameter values
  are the YAML values a Tensile configuration holds. Values are compared structurally.
\<close>

datatype pyval =
    VNone
  | VBool bool
  | VInt int
  | VStr string
  | VList "pyval list"
  | VTuple "pyval list"
  | VDict "(string \<times> pyval) list"

type_synonym dict = "(string \<times> pyval) list"

text \<open>A path is the list of its components; the working path is used as a stack.\<close>

type_synonym path = "string list"

text \<open>Python truthiness, as used by \<^verbatim>\<open>if x:\<close> and \<^verbatim>\<open>a and b\<close>.\<close>

fun truthy :: "pyval \<Rightarrow> bool" where
  "truthy VNone = False"
| "truthy (VBool b) = b"
| "truthy (VInt i) = (i \<noteq> 0)"
| "truthy (VStr s) = (s \<noteq> [])"
| "truthy (VList xs) = (xs \<noteq> [])"
| "truthy (VTuple xs) = (xs \<noteq> [])"
| "truthy (VDict d) = (d \<noteq> [])"

text \<open>\<^verbatim>\<open>d.update(other)\<close>: every entry of \<open>other\<close> is stored into \<open>d\<close>, in order.\<close>

definition dict_update :: "dict \<Rightarrow> dict \<Rightarrow> dict" where
  "dict_update d other = fold (\<lambda>(k, v). AList.update k v) other d"

text \<open>
  Equality of two mappings (\<^verbatim>\<open>ProblemType.__eq__\<close> compares the two states as
  dictionaries): the same keys with the same values, whatever the insertion order.
\<close>

definition dict_eq :: "dict \<Rightarrow> dict \<Rightarrow> bool" where
  "dict_eq a b = list_all (\<lambda>k. map_of a k = map_of b k) (map fst a @ map fst b)"

text \<open>
  The item sets of lines 86-89: \<^verbatim>\<open>(k, tuple(v)) if type(v) is list else (k, v)\<close>.
  A Python set of items is a list without repetitions here; difference and
  intersection filter it; \<^verbatim>\<open>sorted\<close> orders the items, whose keys are pairwise
  different (they come from one dictionary), by key.
\<close>

definition hashableItem :: "string \<times> pyval \<Rightarrow> string \<times> pyval" where
  "hashableItem kv = (case kv of (k, VList xs) \<Rightarrow> (k, VTuple xs) | (k, v) \<Rightarrow> (k, v))"

definition itemSet :: "dict \<Rightarrow> (string \<times> pyval) list" where
  "itemSet d = remdups (map hashableItem d)"

definition set_inter :: "'a list \<Rightarrow> 'a list \<Rightarrow> 'a list" where
  "set_inter xs ys = filter (\<lambda>x. x \<in> set ys) xs"

definition set_minus :: "'a list \<Rightarrow> 'a list \<Rightarrow> 'a list" where
  "set_minus xs ys = filter (\<lambda>x. x \<notin> set ys) xs"

definition sorted_items :: "(string \<times> pyval) list \<Rightarrow> (string \<times> pyval) list" where
  "sorted_items xs = sort_key fst xs"

text \<open>\<^verbatim>\<open>"{:02d}".format(n)\<close> for the index of an \<^verbatim>\<open>enumerate\<close>.\<close>

fun decimal :: "nat \<Rightarrow> string" where
  "decimal n =
     (if n < 10 then [''0123456789'' ! n]
      else decimal (n div 10) @ [''0123456789'' ! (n mod 10)])"

declare decimal.simps [simp del]


text \<open>\<^verbatim>\<open>base + ".csv"\<close> on a path: the suffix goes to the last component.\<close>

definition addSuffix :: "path \<Rightarrow> string \<Rightarrow> path" where
  "addSuffix p s = butlast p @ [last p @ s]"

text \<open>\<^verbatim>\<open>os.path.relpath(f, start)\<close> on component lists.\<close>

fun relpath :: "path \<Rightarrow> path \<Rightarrow> path" where
  "relpath (a # f) (b # start) =
     (if a = b then relpath f start else replicate (Suc (length start)) ''..'' @ (a # f))"
| "relpath f start = replicate (length start) ''..'' @ f"

section \<open>Errors, events and the process state\<close>

text \<open>
  \<^verbatim>\<open>printExit(msg)\<close> stops the process. The message is kept by its parts: for the
  custom-kernel mismatch (lines 91-98) the kernel name, the sorted config-only items and
  the sorted custom-kernel-only items; for the empty enumeration (lines 258-265) the
  diagnostic flag that selects the hint.
\<close>

datatype exitMessage =
    ProblemTypeMismatch string "(string \<times> pyval) list" "(string \<times> pyval) list"
  | ZeroValidSolutions bool
  | ZeroSolutionsAfterWrite
  | InvalidParameters string

datatype error =
    PrintExit exitMessage
  | KeyError string
  | IndexError
  | TypeError
  | FileNotFoundError path
  | SysExit int

text \<open>
  Every call that leaves the module is recorded, with its arguments, in the order the
  calls are made. The selection library handed to the client configuration is
  represented by the solutions it was built from.
\<close>

datatype ('sol, 'ps) event =
    Print1 string
  | PrintWarning int
  | PrintClientExit nat
  | PushWorkingPath string
  | PopWorkingPath
  | GetClientExecutable
  | CopyStaticFiles
  | WriteSolutionsAndKernels path "'sol list"
  | LibraryWrite path "'sol list"
  | WriteClientConfig bool "'sol list" 'ps string path "'sol list" "path list" bool
  | RunClient bool pyval
  | WriteSolutions path 'ps "'sol list"
  | Copy path path

text \<open>
  \<^verbatim>\<open>globalParameters\<close> (the entries this module reads or writes), the files that
  exist, and the trace of events.
\<close>

record ('sol, 'ps) world =
  PrintSolutionRejectionReason :: bool
  MergeFiles :: bool
  ForceRedoBenchmarkProblems :: bool
  CSVExportWinner :: bool
  ExitOnFails :: bool
  BenchmarkDataPath :: string
  BenchmarkProblemsPath :: string
  WorkingPath :: path
  EnableHalf :: bool
  files :: "path set"
  events :: "('sol, 'ps) event list"

definition emit :: "('sol, 'ps) event \<Rightarrow> ('sol, 'ps) world \<Rightarrow> ('sol, 'ps) world" where
  "emit ev w = w\<lparr>events := events w @ [ev]\<rparr>"

definition print1 :: "string \<Rightarrow> ('sol, 'ps) world \<Rightarrow> ('sol, 'ps) world" where
  "print1 msg w = emit (Print1 msg) w"

text \<open>The events a run added: those of the final state after those of the initial one.\<close>

definition emitted :: "('sol, 'ps) world \<Rightarrow> ('sol, 'ps) world \<Rightarrow> ('sol, 'ps) event list" where
  "emitted w w' = drop (length (events w)) (events w')"

text \<open>The kinds of events the properties below single out.\<close>

fun isRunClient :: "('sol, 'ps) event \<Rightarrow> bool" where
  "isRunClient (RunClient forBenchmark enableTileSelection) = True"
| "isRunClient ev = False"

fun isWriteSolutions :: "('sol, 'ps) event \<Rightarrow> bool" where
  "isWriteSolutions (WriteSolutions filename sizes solutions) = True"
| "isWriteSolutions ev = False"

fun isWriteClientConfig :: "('sol, 'ps) event \<Rightarrow> bool" where
  "isWriteClientConfig (WriteClientConfig forBenchmark solutions sizes name dir library cof tile) = True"
| "isWriteClientConfig ev = False"

fun isPushWorkingPath :: "('sol, 'ps) event \<Rightarrow> bool" where
  "isPushWorkingPath (PushWorkingPath foldername) = True"
| "isPushWorkingPath ev = False"

fun isPopWorkingPath :: "('sol, 'ps) event \<Rightarrow> bool" where
  "isPopWorkingPath PopWorkingPath = True"
| "isPopWorkingPath ev = False"

definition ensurePath :: "path \<Rightarrow> ('sol, 'ps) world \<Rightarrow> ('sol, 'ps) world" where
  \<comment> \<open>Modelled from the spec: \<^verbatim>\<open>Common.ensurePath\<close> is not in the sources; it makes
      the directory exist.\<close>
  "ensurePath p w = w\<lparr>files := insert p (files w)\<rparr>"

definition pushWorkingPath :: "string \<Rightarrow> ('sol, 'ps) world \<Rightarrow> ('sol, 'ps) world" where
  \<comment> \<open>Modelled from the spec: \<^verbatim>\<open>Common.pushWorkingPath\<close> is not in the sources. The
      working path is a push/pop stack of directory contexts; a push enters (and
      creates) the named subdirectory.\<close>
  "pushWorkingPath foldername w =
     ensurePath (WorkingPath w @ [foldername])
       (emit (PushWorkingPath foldername) (w\<lparr>WorkingPath := WorkingPath w @ [foldername]\<rparr>))"

definition popWorkingPath :: "('sol, 'ps) world \<Rightarrow> ('sol, 'ps) world" where
  \<comment> \<open>Modelled from the spec: \<^verbatim>\<open>Common.popWorkingPath\<close> is not in the sources; a pop
      leaves the directory context entered last.\<close>
  "popWorkingPath w = emit PopWorkingPath (w\<lparr>WorkingPath := butlast (WorkingPath w)\<rparr>)"


definition writeSolutions ::
  "path \<Rightarrow> 'ps \<Rightarrow> 'sol list \<Rightarrow> ('sol, 'ps) world \<Rightarrow> ('sol, 'ps) world" where
  "writeSolutions filename sizes solutions w =
     (emit (WriteSolutions filename sizes solutions) w)\<lparr>files := insert filename (files w)\<rparr>"

section \<open>Benchmark steps and the collaborators of the module\<close>

record 'ps benchmarkStep =
  stepName :: string
  forkParams :: dict
  constantParams :: dict
  customKernels :: "string list"
  customKernelWildcard :: bool
  problemSizes :: 'ps
  isFinal :: bool

record 'ps benchmarkProcess =
  problemType :: dict
  benchmarkSteps :: "'ps benchmarkStep list"

text \<open>
  The classes and functions the module imports are parameters. A solution object is a
  value of the type \<open>'sol\<close>, whose equality is the value equality of
  \<^verbatim>\<open>Solution.__eq__\<close> (with a hash that agrees with it); \<open>Valid\<close>,
  \<open>solutionProblemType\<close>, \<open>MacroTile0\<close> and \<open>MacroTile1\<close> read the entries of that
  name. \<open>stepName\<close> above is \<^verbatim>\<open>str(benchmarkStep)\<close>. The generator
  \<open>writeSolutionsAndKernels\<close> stands for lines 119-155: the kernels, helper objects
  and naming objects are computed from the solutions by collaborator methods and only
  handed to collaborators; it returns the solution list as it has mutated it and the
  code object files. \<open>runClient\<close> returns the exit code and the files the client wrote.
  Collaborators other than these change neither the working path nor the files.
\<close>

record ('sol, 'ps) collaborators =
  Solution :: "dict \<Rightarrow> 'sol"
  Valid :: "'sol \<Rightarrow> bool"
  solutionProblemType :: "'sol \<Rightarrow> dict"
  MacroTile0 :: "'sol \<Rightarrow> int"
  MacroTile1 :: "'sol \<Rightarrow> int"
  strSolution :: "'sol \<Rightarrow> string"
  strProblemType :: "dict \<Rightarrow> string"
  getCustomKernelConfig :: "string \<Rightarrow> dict"
  checkParametersAreValid :: "dict \<Rightarrow> bool"
  constructForkPermutations :: "dict \<Rightarrow> dict list"
  writeSolutionsAndKernels :: "path \<Rightarrow> 'sol list \<Rightarrow> 'sol list \<times> path list"
  ProblemSizes :: "dict \<Rightarrow> pyval list \<Rightarrow> 'ps"
  runClient :: "('sol, 'ps) world \<Rightarrow> pyval \<Rightarrow> int \<times> path list"
  ProblemType :: "dict \<Rightarrow> dict"
  dataTypeIsHalf :: "dict \<Rightarrow> bool"
  BenchmarkProcess :: "dict \<Rightarrow> dict \<Rightarrow> 'ps benchmarkProcess"

section \<open>generateForkedSolutions (lines 45-65)\<close>

text \<open>Lines 52-57: the solution object of one fork permutation.\<close>

definition forkedSolutionObject ::
  "('sol, 'ps) collaborators \<Rightarrow> dict \<Rightarrow> dict \<Rightarrow> dict \<Rightarrow> 'sol" where
  "forkedSolutionObject ext pt constParams perm =
     Solution ext (dict_update (dict_update [(''ProblemType'', VDict pt)] constParams) perm)"

text \<open>Lines 58-63: one turn of the loop on \<open>(solutions, solutionSet)\<close> and the trace.\<close>

definition forkedSolutionStep ::
  "('sol, 'ps) collaborators \<Rightarrow> dict \<Rightarrow> dict \<Rightarrow> dict \<Rightarrow>
   'sol list \<times> 'sol set \<times> ('sol, 'ps) world \<Rightarrow> 'sol list \<times> 'sol set \<times> ('sol, 'ps) world" where
  "forkedSolutionStep ext pt constParams perm acc =
     (case acc of (solutions, solutionSet, w) \<Rightarrow>
        let solutionObject = forkedSolutionObject ext pt constParams perm in
        if Valid ext solutionObject then
          (if solutionObject \<notin> solutionSet
           then (solutions @ [solutionObject], insert solutionObject solutionSet, w)
           else (solutions, solutionSet, w))
        else if PrintSolutionRejectionReason w then
          (solutions, solutionSet,
           print1 (''rejecting solution '' @ strSolution ext solutionObject) w)
        else (solutions, solutionSet, w))"

definition generateForkedSolutions ::
  "('sol, 'ps) collaborators \<Rightarrow> dict \<Rightarrow> dict \<Rightarrow> dict list \<Rightarrow> ('sol, 'ps) world \<Rightarrow>
   'sol list \<times> ('sol, 'ps) world" where
  "generateForkedSolutions ext pt constParams forkPermutations w =
     (case fold (forkedSolutionStep ext pt constParams) forkPermutations
             ([], {}, print1 ''# Enumerating Solutions'' w) of
        (solutions, solutionSet, w') \<Rightarrow> (solutions, w'))"

section \<open>Custom kernels (lines 67-108)\<close>

text \<open>
  \<^verbatim>\<open>getCustomKernelSolutionObj\<close>: the stored configuration is checked without its
  \<^verbatim>\<open>ProblemType\<close> entry (each value wrapped in a one-element list); the checker
  stops the process on an invalid name or value.
\<close>

definition getCustomKernelSolutionObj ::
  "('sol, 'ps) collaborators \<Rightarrow> string \<Rightarrow> error + 'sol" where
  "getCustomKernelSolutionObj ext kernelName =
     (let kernelConfig = getCustomKernelConfig ext kernelName in
      if \<not> checkParametersAreValid ext
             (map (\<lambda>(p, v). (p, VList [v])) (filter (\<lambda>(p, v). p \<noteq> ''ProblemType'') kernelConfig))
      then Inl (PrintExit (InvalidParameters kernelName))
      else Inr (Solution ext
             (AList.update ''CustomKernelName'' (VStr kernelName)
               (AList.update ''KernelLanguage'' (VStr ''Assembly'') kernelConfig))))"

text \<open>Lines 86-98: the diagnostic of a mismatch.\<close>

definition mismatchMessage :: "string \<Rightarrow> dict \<Rightarrow> dict \<Rightarrow> exitMessage" where
  "mismatchMessage kernelName pt customPt =
     (let benchmarkSet = itemSet pt;
          customSet = itemSet customPt
      in ProblemTypeMismatch kernelName
           (sorted_items (set_minus benchmarkSet (set_inter customSet benchmarkSet)))
           (sorted_items (set_minus customSet (set_inter customSet benchmarkSet))))"

text \<open>The loop of lines 80-106, on the kernel names left, with \<open>solutions\<close> so far.\<close>

fun customKernelLoop ::
  "('sol, 'ps) collaborators \<Rightarrow> dict \<Rightarrow> bool \<Rightarrow> string list \<Rightarrow> 'sol list \<Rightarrow>
   ('sol, 'ps) world \<Rightarrow> (error + 'sol list) \<times> ('sol, 'ps) world" where
  "customKernelLoop ext pt failOnMismatch [] solutions w = (Inr solutions, w)"
| "customKernelLoop ext pt failOnMismatch (kernelName # rest) solutions w =
     (let w1 = print1 (''# Processing custom kernel '' @ kernelName) w in
      case getCustomKernelSolutionObj ext kernelName of
        Inl e \<Rightarrow> (Inl e, w1)
      | Inr solution \<Rightarrow>
          if \<not> dict_eq (solutionProblemType ext solution) pt then
            (if failOnMismatch then
               (Inl (PrintExit (mismatchMessage kernelName pt (solutionProblemType ext solution))), w1)
             else
               customKernelLoop ext pt failOnMismatch rest solutions
                 (print1 (''# Rejected '' @ kernelName @ '': Problem Type doesn't match'') w1))
          else
            (let w2 = print1 (''# Added '' @ kernelName @ '' to solutions'') w1 in
             if Valid ext solution then
               customKernelLoop ext pt failOnMismatch rest (solutions @ [solution]) w2
             else if PrintSolutionRejectionReason w2 then
               customKernelLoop ext pt failOnMismatch rest solutions
                 (print1 (''rejecting solution '' @ strSolution ext solution) w2)
             else customKernelLoop ext pt failOnMismatch rest solutions w2))"

definition generateCustomKernelSolutions ::
  "('sol, 'ps) collaborators \<Rightarrow> dict \<Rightarrow> string list \<Rightarrow> bool \<Rightarrow>
   ('sol, 'ps) world \<Rightarrow> (error + 'sol list) \<times> ('sol, 'ps) world" where
  "generateCustomKernelSolutions ext pt kernels failOnMismatch w =
     customKernelLoop ext pt failOnMismatch kernels [] w"

section \<open>writeBenchmarkFiles (lines 110-195)\<close>

text \<open>Lines 167-175: the largest macro tile sizes, starting from 0.\<close>

definition maxMacroTiles :: "('sol, 'ps) collaborators \<Rightarrow> 'sol list \<Rightarrow> int \<times> int" where
  "maxMacroTiles ext solutions =
     fold (\<lambda>solution (maxMacroTile0, maxMacroTile1).
             (if MacroTile0 ext solution > maxMacroTile0 then MacroTile0 ext solution
              else maxMacroTile0,
              if MacroTile1 ext solution > maxMacroTile1 then MacroTile1 ext solution
              else maxMacroTile1))
          solutions (0, 0)"

text \<open>Lines 176-186: the synthetic exact sizes.\<close>

definition idealSizes :: "bool \<Rightarrow> int \<Rightarrow> int \<Rightarrow> int list \<Rightarrow> pyval list" where
  "idealSizes batched idealM idealN solutionSummationSizes =
     (if batched then
        map (\<lambda>idealK. VDict [(''Exact'', VList [VInt idealM, VInt idealN, VInt 1, VInt idealK])])
          solutionSummationSizes
      else
        map (\<lambda>idealK. VDict [(''Exact'', VList [VInt idealM, VInt idealN, VInt idealK])])
          solutionSummationSizes)"

text \<open>Lines 194-195.\<close>

definition checkSolutionsLeft ::
  "'sol list \<Rightarrow> ('sol, 'ps) world \<Rightarrow> (error + 'sol list) \<times> ('sol, 'ps) world" where
  "checkSolutionsLeft solutions w =
     (if length solutions = 0 then (Inl (PrintExit ZeroSolutionsAfterWrite), w)
      else (Inr solutions, w))"

text \<open>
  The function returns nothing; the caller sees the solution list as the generator has
  mutated it, so the model returns that list.
\<close>

definition writeBenchmarkFiles ::
  "('sol, 'ps) collaborators \<Rightarrow> path \<Rightarrow> 'sol list \<Rightarrow> 'ps \<Rightarrow> string \<Rightarrow> int list \<Rightarrow>
   ('sol, 'ps) world \<Rightarrow> (error + 'sol list) \<times> ('sol, 'ps) world" where
  "writeBenchmarkFiles ext stepBaseDir solutions sizes name solutionSummationSizes w =
     (let w1 = (if \<not> MergeFiles w
                then ensurePath (WorkingPath w @ [''Kernels''])
                       (ensurePath (WorkingPath w @ [''Solutions'']) w)
                else w);
          w2 = emit CopyStaticFiles w1
      in case solutions of
           [] \<Rightarrow> (Inl IndexError, w2)
         | first # _ \<Rightarrow>
             (let pt = solutionProblemType ext first;
                  (solutions', codeObjectFiles) =
                     writeSolutionsAndKernels ext (WorkingPath w2) solutions;
                  w3 = emit (WriteSolutionsAndKernels (WorkingPath w2) solutions) w2;
                  newLibraryDir = WorkingPath w3 @ [''library''];
                  w4 = ensurePath newLibraryDir w3;
                  newLibraryFile = newLibraryDir @ [''TensileLibrary''];
                  w5 = emit (LibraryWrite newLibraryFile solutions') w4;
                  codeObjectFiles' = map (\<lambda>f. relpath f (WorkingPath w5)) codeObjectFiles
              in if (case map_of pt ''TileAwareSelection'' of None \<Rightarrow> False | Some v \<Rightarrow> truthy v)
                 then
                   (let (maxMacroTile0, maxMacroTile1) = maxMacroTiles ext solutions';
                        idealM = 36 * maxMacroTile0;
                        idealN = 36 * maxMacroTile1
                    in case map_of pt ''Batched'' of
                         None \<Rightarrow> (Inl (KeyError ''Batched''), w5)
                       | Some batched \<Rightarrow>
                           checkSolutionsLeft solutions'
                             (emit (WriteClientConfig True solutions'
                                      (ProblemSizes ext pt
                                         (idealSizes (truthy batched) idealM idealN
                                            solutionSummationSizes))
                                      name stepBaseDir solutions' codeObjectFiles' True) w5))
                 else
                   checkSolutionsLeft solutions'
                     (emit (WriteClientConfig True solutions' sizes name stepBaseDir
                              solutions' codeObjectFiles' False) w5)))"

section \<open>benchmarkProblemType (lines 197-314)\<close>

text \<open>
  The banner lines of the function (rulers, counters, elapsed wall-clock time) only
  report progress and are left out of the trace; so is the listing of lines 267-270.

  Lines 242-265 of the loop body: the regular solutions, then those of the custom
  kernels (a mismatch is fatal unless the step has the wildcard), and the fatal stop
  when there is none at all.
\<close>

definition enumerateSolutions ::
  "('sol, 'ps) collaborators \<Rightarrow> dict \<Rightarrow> 'ps benchmarkStep \<Rightarrow> ('sol, 'ps) world \<Rightarrow>
   (error + 'sol list) \<times> ('sol, 'ps) world" where
  "enumerateSolutions ext pt benchmarkStep w =
     (let forkPermutations = constructForkPermutations ext (forkParams benchmarkStep);
          (regSolutions, w1) =
             generateForkedSolutions ext pt (constantParams benchmarkStep) forkPermutations w
      in case generateCustomKernelSolutions ext pt (customKernels benchmarkStep)
                (\<not> customKernelWildcard benchmarkStep) w1 of
           (Inl e, w2) \<Rightarrow> (Inl e, w2)
         | (Inr kcSolutions, w2) \<Rightarrow>
             (let solutions = regSolutions @ kcSolutions in
              if length solutions = 0 then
                (Inl (PrintExit (ZeroValidSolutions (PrintSolutionRejectionReason w2))), w2)
              else (Inr solutions, w2)))"

text \<open>
  Lines 237-281: enter the step directory and its \<^verbatim>\<open>source\<close> subdirectory,
  enumerate, write the benchmark files (always with the empty list of summation
  sizes), leave \<^verbatim>\<open>source\<close>.
\<close>

definition benchmarkStepPrepare ::
  "('sol, 'ps) collaborators \<Rightarrow> dict \<Rightarrow> 'ps benchmarkStep \<Rightarrow> ('sol, 'ps) world \<Rightarrow>
   (error + 'sol list) \<times> ('sol, 'ps) world" where
  "benchmarkStepPrepare ext pt benchmarkStep w =
     (let shortName = stepName benchmarkStep;
          w1 = pushWorkingPath shortName w;
          stepBaseDir = WorkingPath w1;
          w2 = pushWorkingPath ''source'' w1
      in case enumerateSolutions ext pt benchmarkStep w2 of
           (Inl e, w3) \<Rightarrow> (Inl e, w3)
         | (Inr solutions, w3) \<Rightarrow>
             (case writeBenchmarkFiles ext stepBaseDir solutions (problemSizes benchmarkStep)
                     shortName [] w3 of
                (Inl e, w4) \<Rightarrow> (Inl e, w4)
              | (Inr solutions', w4) \<Rightarrow> (Inr solutions', popWorkingPath w4)))"

text \<open>
  Lines 284-307: the results base is \<^verbatim>\<open>normpath(join(WorkingPath, "../Data",
  shortName))\<close>, that is the sibling \<^verbatim>\<open>Data\<close> of the step directory; the client runs
  unless the results table exists and no redo is forced; the solutions file is written;
  the step directory is left. The loop state is \<open>(resultsFileBaseFinal,
  benchmarkTestFails)\<close>.
\<close>

definition benchmarkStepRun ::
  "('sol, 'ps) collaborators \<Rightarrow> pyval \<Rightarrow> 'ps benchmarkStep \<Rightarrow> 'sol list \<Rightarrow> path option \<times> nat \<Rightarrow>
   ('sol, 'ps) world \<Rightarrow> (path option \<times> nat) \<times> ('sol, 'ps) world" where
  "benchmarkStepRun ext enableTileSelection benchmarkStep solutions acc w =
     (case acc of (resultsFileBaseFinal, benchmarkTestFails) \<Rightarrow>
        let shortName = stepName benchmarkStep;
            resultsFileBase = butlast (WorkingPath w) @ [''Data'', shortName];
            resultsFileBaseFinal' =
              (if isFinal benchmarkStep then Some resultsFileBase else resultsFileBaseFinal);
            resultsFileName = addSuffix resultsFileBase ''.csv'';
            solutionsFileName = addSuffix resultsFileBase ''.yaml'';
            (benchmarkTestFails', w1) =
              (if resultsFileName \<notin> files w \<or> ForceRedoBenchmarkProblems w then
                 (let (returncode, written) = runClient ext w enableTileSelection;
                      wc = (emit (RunClient True enableTileSelection) w)
                             \<lparr>files := files w \<union> set written\<rparr>
                  in if returncode \<noteq> 0
                     then (benchmarkTestFails + 1, emit (PrintWarning returncode) wc)
                     else (benchmarkTestFails, wc))
               else (benchmarkTestFails, print1 ''# Already benchmarked; skipping.'' w));
            w2 = writeSolutions solutionsFileName (problemSizes benchmarkStep) solutions w1
        in ((resultsFileBaseFinal', benchmarkTestFails'), popWorkingPath w2))"

text \<open>One turn of the loop of line 222, and the loop.\<close>

definition benchmarkStepBody ::
  "('sol, 'ps) collaborators \<Rightarrow> dict \<Rightarrow> pyval \<Rightarrow> 'ps benchmarkStep \<Rightarrow> path option \<times> nat \<Rightarrow>
   ('sol, 'ps) world \<Rightarrow> (error + path option \<times> nat) \<times> ('sol, 'ps) world" where
  "benchmarkStepBody ext pt enableTileSelection benchmarkStep acc w =
     (case benchmarkStepPrepare ext pt benchmarkStep w of
        (Inl e, w') \<Rightarrow> (Inl e, w')
      | (Inr solutions, w') \<Rightarrow>
          (case benchmarkStepRun ext enableTileSelection benchmarkStep solutions acc w' of
             (acc', w'') \<Rightarrow> (Inr acc', w'')))"

fun benchmarkStepsLoop ::
  "('sol, 'ps) collaborators \<Rightarrow> dict \<Rightarrow> pyval \<Rightarrow> 'ps benchmarkStep list \<Rightarrow> path option \<times> nat \<Rightarrow>
   ('sol, 'ps) world \<Rightarrow> (error + path option \<times> nat) \<times> ('sol, 'ps) world" where
  "benchmarkStepsLoop ext pt enableTileSelection [] acc w = (Inr acc, w)"
| "benchmarkStepsLoop ext pt enableTileSelection (benchmarkStep # rest) acc w =
     (case benchmarkStepBody ext pt enableTileSelection benchmarkStep acc w of
        (Inl e, w') \<Rightarrow> (Inl e, w')
      | (Inr acc', w') \<Rightarrow> benchmarkStepsLoop ext pt enableTileSelection rest acc' w')"


section \<open>main (lines 317-376)\<close>




section \<open>A concrete configuration\<close>

text \<open>
  Collaborators for evaluating the functions: a solution object is its parameter
  dictionary; it is valid unless its \<^verbatim>\<open>DepthU\<close> is 0; its name is its
  \<^verbatim>\<open>DepthU\<close>; the fork permutations are the values listed for \<^verbatim>\<open>DepthU\<close>; the
  generator keeps every solution; the client returns \<open>rc\<close> and writes the results
  table of the step; the benchmark process has the steps \<open>steps\<close>.
\<close>

definition exampleProblemType :: dict where
  "exampleProblemType =
     [(''OperationType'', VStr ''GEMM''), (''Batched'', VBool True),
      (''TileAwareSelection'', VBool False), (''IndexAssignmentsA'', VList [VInt 0, VInt 2])]"

definition tileAwareProblemType :: dict where
  "tileAwareProblemType =
     [(''OperationType'', VStr ''GEMM''), (''Batched'', VBool True),
      (''TileAwareSelection'', VBool True), (''IndexAssignmentsA'', VList [VInt 0, VInt 2])]"

definition intParam :: "string \<Rightarrow> dict \<Rightarrow> int" where
  "intParam k d = (case map_of d k of Some (VInt n) \<Rightarrow> n | _ \<Rightarrow> 0)"

definition exampleKernelConfig :: "string \<Rightarrow> dict" where
  "exampleKernelConfig kernelName =
     (if kernelName = ''kernelB'' then
        [(''ProblemType'', VDict [(''OperationType'', VStr ''GEMM''), (''Batched'', VBool False),
            (''TileAwareSelection'', VBool False), (''IndexAssignmentsA'', VList [VInt 0, VInt 2])]),
         (''DepthU'', VInt 32), (''MacroTile0'', VInt 64), (''MacroTile1'', VInt 64)]
      else if kernelName = ''kernelT'' then
        [(''ProblemType'', VDict tileAwareProblemType),
         (''DepthU'', VInt 32), (''MacroTile0'', VInt 128), (''MacroTile1'', VInt 64)]
      else
        [(''ProblemType'', VDict exampleProblemType),
         (''DepthU'', VInt 32), (''MacroTile0'', VInt 128), (''MacroTile1'', VInt 64)])"

definition exampleCollaborators ::
  "int \<Rightarrow> (pyval list) benchmarkStep list \<Rightarrow> (dict, pyval list) collaborators" where
  "exampleCollaborators rc steps =
     \<lparr> Solution = (\<lambda>d. d),
       Valid = (\<lambda>s. map_of s ''DepthU'' \<noteq> Some (VInt 0)),
       solutionProblemType = (\<lambda>s. case map_of s ''ProblemType'' of Some (VDict d) \<Rightarrow> d | _ \<Rightarrow> []),
       MacroTile0 = intParam ''MacroTile0'',
       MacroTile1 = intParam ''MacroTile1'',
       strSolution = (\<lambda>s. ''DU'' @ decimal (nat (intParam ''DepthU'' s))),
       strProblemType = (\<lambda>d. ''Cijk_Ailk_Bljk_SB''),
       getCustomKernelConfig = exampleKernelConfig,
       checkParametersAreValid = (\<lambda>d. True),
       constructForkPermutations =
         (\<lambda>d. case map_of d ''DepthU'' of
                 Some (VList vs) \<Rightarrow> map (\<lambda>v. [(''DepthU'', v)]) vs
               | _ \<Rightarrow> [[]]),
       writeSolutionsAndKernels = (\<lambda>dir solutions. (solutions, [dir @ [''library'', ''Kernels.co'']])),
       ProblemSizes = (\<lambda>d sizes. sizes),
       runClient =
         (\<lambda>w enableTileSelection.
            (rc, [butlast (WorkingPath w) @ [''Data'', last (WorkingPath w) @ ''.csv'']])),
       ProblemType = (\<lambda>d. d),
       dataTypeIsHalf = (\<lambda>d. False),
       BenchmarkProcess = (\<lambda>config sizeGroup. \<lparr> problemType = config, benchmarkSteps = steps \<rparr>) \<rparr>"

definition exampleWorld :: "(dict, pyval list) world" where
  "exampleWorld =
     \<lparr> PrintSolutionRejectionReason = True,
       MergeFiles = True,
       ForceRedoBenchmarkProblems = False,
       CSVExportWinner = False,
       ExitOnFails = False,
       BenchmarkDataPath = ''Data'',
       BenchmarkProblemsPath = ''1_BenchmarkProblems'',
       WorkingPath = [''build''],
       EnableHalf = False,
       files = {},
       events = [] \<rparr>"

definition exampleStep :: "pyval list \<Rightarrow> string list \<Rightarrow> (pyval list) benchmarkStep" where
  "exampleStep depths kernels =
     \<lparr> stepName = ''Final'',
       forkParams = [(''DepthU'', VList depths)],
       constantParams = [(''MacroTile0'', VInt 128), (''MacroTile1'', VInt 64)],
       customKernels = kernels,
       customKernelWildcard = False,
       problemSizes = [VDict [(''Exact'', VList [VInt 1024, VInt 1024, VInt 1, VInt 1024])]],
       isFinal = True \<rparr>"

text \<open>Two solutions of a tile-aware problem type, with macro tiles 128x32 and 64x64.\<close>

definition tileSolutionA :: dict where
  "tileSolutionA =
     [(''ProblemType'', VDict tileAwareProblemType), (''DepthU'', VInt 8),
      (''MacroTile0'', VInt 128), (''MacroTile1'', VInt 32)]"

definition tileSolutionB :: dict where
  "tileSolutionB =
     [(''ProblemType'', VDict tileAwareProblemType), (''DepthU'', VInt 16),
      (''MacroTile0'', VInt 64), (''MacroTile1'', VInt 64)]"

text \<open>
  The solution the concrete step builds for one \<^verbatim>\<open>DepthU\<close>, and a state in which the
  results table of the step \<^verbatim>\<open>Final\<close> exists already.
\<close>

definition exampleSolution :: "int \<Rightarrow> dict" where
  "exampleSolution depth =
     [(''ProblemType'', VDict exampleProblemType), (''MacroTile0'', VInt 128),
      (''MacroTile1'', VInt 64), (''DepthU'', VInt depth)]"

definition cachedWorld :: "(dict, pyval list) world" where
  "cachedWorld = exampleWorld\<lparr>files := {[''build'', ''Data'', ''Final.csv'']}\<rparr>"

section \<open>What the elementary operations change\<close>

lemma emit_fields [simp]:
  "PrintSolutionRejectionReason (emit ev w) = PrintSolutionRejectionReason w"
  "MergeFiles (emit ev w) = MergeFiles w"
  "ForceRedoBenchmarkProblems (emit ev w) = ForceRedoBenchmarkProblems w"
  "WorkingPath (emit ev w) = WorkingPath w"
  "files (emit ev w) = files w"
  "events (emit ev w) = events w @ [ev]"
  by (simp_all add: emit_def)

lemma print1_fields [simp]:
  "PrintSolutionRejectionReason (print1 m w) = PrintSolutionRejectionReason w"
  "MergeFiles (print1 m w) = MergeFiles w"
  "ForceRedoBenchmarkProblems (print1 m w) = ForceRedoBenchmarkProblems w"
  "WorkingPath (print1 m w) = WorkingPath w"
  "files (print1 m w) = files w"
  "events (print1 m w) = events w @ [Print1 m]"
  by (simp_all add: print1_def)

lemma ensurePath_fields [simp]:
  "PrintSolutionRejectionReason (ensurePath p w) = PrintSolutionRejectionReason w"
  "MergeFiles (ensurePath p w) = MergeFiles w"
  "ForceRedoBenchmarkProblems (ensurePath p w) = ForceRedoBenchmarkProblems w"
  "WorkingPath (ensurePath p w) = WorkingPath w"
  "files (ensurePath p w) = insert p (files w)"
  "events (ensurePath p w) = events w"
  by (simp_all add: ensurePath_def)

lemma pushWorkingPath_fields [simp]:
  "PrintSolutionRejectionReason (pushWorkingPath n w) = PrintSolutionRejectionReason w"
  "MergeFiles (pushWorkingPath n w) = MergeFiles w"
  "ForceRedoBenchmarkProblems (pushWorkingPath n w) = ForceRedoBenchmarkProblems w"
  "WorkingPath (pushWorkingPath n w) = WorkingPath w @ [n]"
  "files (pushWorkingPath n w) = insert (WorkingPath w @ [n]) (files w)"
  "events (pushWorkingPath n w) = events w @ [PushWorkingPath n]"
  by (simp_all add: pushWorkingPath_def)

lemma popWorkingPath_fields [simp]:
  "PrintSolutionRejectionReason (popWorkingPath w) = PrintSolutionRejectionReason w"
  "MergeFiles (popWorkingPath w) = MergeFiles w"
  "ForceRedoBenchmarkProblems (popWorkingPath w) = ForceRedoBenchmarkProblems w"
  "WorkingPath (popWorkingPath w) = butlast (WorkingPath w)"
  "files (popWorkingPath w) = files w"
  "events (popWorkingPath w) = events w @ [PopWorkingPath]"
  by (simp_all add: popWorkingPath_def)

lemma writeSolutions_fields [simp]:
  "PrintSolutionRejectionReason (writeSolutions f ps sols w) = PrintSolutionRejectionReason w"
  "MergeFiles (writeSolutions f ps sols w) = MergeFiles w"
  "ForceRedoBenchmarkProblems (writeSolutions f ps sols w) = ForceRedoBenchmarkProblems w"
  "WorkingPath (writeSolutions f ps sols w) = WorkingPath w"
  "files (writeSolutions f ps sols w) = insert f (files w)"
  "events (writeSolutions f ps sols w) = events w @ [WriteSolutions f ps sols]"
  by (simp_all add: writeSolutions_def)

lemma emitted_append: "events w' = events w @ es \<Longrightarrow> emitted w w' = es"
  by (simp add: emitted_def)

lemma emitted_self [simp]: "emitted w w = []"
  by (simp add: emitted_def)

section \<open>The trace of generateForkedSolutions\<close>

lemma forked_fold_world:
  "snd (snd (fold (forkedSolutionStep ext pt cp) perms (sols, S, w0))) =
     w0\<lparr>events := events w0 @
          (if PrintSolutionRejectionReason w0
           then map (\<lambda>s. Print1 (''rejecting solution '' @ strSolution ext s))
                  (filter (\<lambda>s. \<not> Valid ext s) (map (forkedSolutionObject ext pt cp) perms))
           else [])\<rparr>"
proof (induction perms arbitrary: sols S w0)
  case Nil
  show ?case by simp
next
  case (Cons p ps)
  show ?case
    by (simp add: forkedSolutionStep_def [of ext pt cp p] Let_def Cons.IH print1_def emit_def)
qed

lemma generateForkedSolutions_snd:
  "snd (generateForkedSolutions ext pt cp perms w) =
     w\<lparr>events := events w @ Print1 ''# Enumerating Solutions'' #
          (if PrintSolutionRejectionReason w
           then map (\<lambda>s. Print1 (''rejecting solution '' @ strSolution ext s))
                  (filter (\<lambda>s. \<not> Valid ext s) (map (forkedSolutionObject ext pt cp) perms))
           else [])\<rparr>"
proof -
  have "snd (generateForkedSolutions ext pt cp perms w) =
     snd (snd (fold (forkedSolutionStep ext pt cp) perms
        ([], {}, print1 ''# Enumerating Solutions'' w)))"
    by (simp add: generateForkedSolutions_def split: prod.splits)
  then show ?thesis
    unfolding forked_fold_world by (simp add: print1_def emit_def)
qed

section \<open>Properties of generateForkedSolutions\<close>

text \<open>
  The candidates kept are described by positions: position \<open>i\<close> of the candidate list is
  kept when the candidate is valid and does not occur at an earlier position.
\<close>

lemma firstSeen_snoc:
  "map ((!) (cs @ [c])) (filter (\<lambda>i. P ((cs @ [c]) ! i) \<and> (cs @ [c]) ! i \<notin> set (take i (cs @ [c])))
        [0..<length (cs @ [c])]) =
   map ((!) cs) (filter (\<lambda>i. P (cs ! i) \<and> cs ! i \<notin> set (take i cs)) [0..<length cs])
     @ (if P c \<and> c \<notin> set cs then [c] else [])"
proof -
  have f: "filter (\<lambda>i. P ((cs @ [c]) ! i) \<and> (cs @ [c]) ! i \<notin> set (take i (cs @ [c]))) [0..<length cs]
         = filter (\<lambda>i. P (cs ! i) \<and> cs ! i \<notin> set (take i cs)) [0..<length cs]"
    by (rule filter_cong) (auto simp: nth_append)
  have m: "map ((!) (cs @ [c])) (filter (\<lambda>i. P (cs ! i) \<and> cs ! i \<notin> set (take i cs)) [0..<length cs])
         = map ((!) cs) (filter (\<lambda>i. P (cs ! i) \<and> cs ! i \<notin> set (take i cs)) [0..<length cs])"
    by (rule map_cong) (auto simp: nth_append)
  have u: "[0..<length (cs @ [c])] = [0..<length cs] @ [length cs]"
    by simp
  have l: "map ((!) (cs @ [c])) (filter (\<lambda>i. P ((cs @ [c]) ! i) \<and> (cs @ [c]) ! i \<notin> set (take i (cs @ [c])))
        [length cs]) = (if P c \<and> c \<notin> set cs then [c] else [])"
    by simp
  show ?thesis
    unfolding u filter_append map_append f m l ..
qed

lemma distinct_firstSeen:
  "distinct (map ((!) cs) (filter (\<lambda>i. P (cs ! i) \<and> cs ! i \<notin> set (take i cs)) [0..<length cs]))"
proof (induction cs rule: rev_induct)
  case Nil
  show ?case by simp
next
  case (snoc c cs)
  have "set (map ((!) cs) (filter (\<lambda>i. P (cs ! i) \<and> cs ! i \<notin> set (take i cs)) [0..<length cs])) \<subseteq> set cs"
    by auto
  then show ?case
    unfolding firstSeen_snoc using snoc.IH by auto
qed

lemma forked_fold:
  "case fold (forkedSolutionStep ext pt cp) perms ([], {}, w0) of
     (sols, S, w') \<Rightarrow>
       S = set sols \<and>
       set sols = {c \<in> set (map (forkedSolutionObject ext pt cp) perms). Valid ext c} \<and>
       sols = map ((!) (map (forkedSolutionObject ext pt cp) perms))
                (filter (\<lambda>i. Valid ext (map (forkedSolutionObject ext pt cp) perms ! i) \<and>
                              map (forkedSolutionObject ext pt cp) perms ! i
                                \<notin> set (take i (map (forkedSolutionObject ext pt cp) perms)))
                    [0..<length (map (forkedSolutionObject ext pt cp) perms)])"
proof (induction perms rule: rev_induct)
  case Nil
  show ?case by simp
next
  case (snoc p ps)
  let ?cs = "map (forkedSolutionObject ext pt cp) ps"
  let ?c = "forkedSolutionObject ext pt cp p"
  obtain sols S w' where st: "fold (forkedSolutionStep ext pt cp) ps ([], {}, w0) = (sols, S, w')"
    by (cases "fold (forkedSolutionStep ext pt cp) ps ([], {}, w0)") auto
  from snoc.IH have ih: "S = set sols \<and> set sols = {c \<in> set ?cs. Valid ext c} \<and>
      sols = map ((!) ?cs) (filter (\<lambda>i. Valid ext (?cs ! i) \<and> ?cs ! i \<notin> set (take i ?cs)) [0..<length ?cs])"
    unfolding st prod.case .
  note ih1 = ih [THEN conjunct1] and ih2 = ih [THEN conjunct2, THEN conjunct1]
    and ih3 = ih [THEN conjunct2, THEN conjunct2]
  have fo: "fold (forkedSolutionStep ext pt cp) (ps @ [p]) ([], {}, w0)
          = forkedSolutionStep ext pt cp p (sols, S, w')"
    by (simp add: st)
  have mp: "map (forkedSolutionObject ext pt cp) (ps @ [p]) = ?cs @ [?c]"
    by simp
  have mem: "?c \<in> S \<longleftrightarrow> ?c \<in> set ?cs \<and> Valid ext ?c"
    using ih1 ih2 by auto
  show ?case
    unfolding fo mp firstSeen_snoc ih3 [symmetric]
    using ih1 ih2 mem
    by (auto simp: forkedSolutionStep_def Let_def)
qed

lemma generateForkedSolutions_fst:
  "fst (generateForkedSolutions ext pt cp perms w) =
     map ((!) (map (forkedSolutionObject ext pt cp) perms))
       (filter (\<lambda>i. Valid ext (map (forkedSolutionObject ext pt cp) perms ! i) \<and>
                     map (forkedSolutionObject ext pt cp) perms ! i
                       \<notin> set (take i (map (forkedSolutionObject ext pt cp) perms)))
           [0..<length (map (forkedSolutionObject ext pt cp) perms)])"
  using forked_fold [of ext pt cp perms "print1 ''# Enumerating Solutions'' w"]
  unfolding generateForkedSolutions_def
  by (simp split: prod.splits)

lemma generateForkedSolutions_set:
  "set (fst (generateForkedSolutions ext pt cp perms w)) =
     {c \<in> set (map (forkedSolutionObject ext pt cp) perms). Valid ext c}"
  using forked_fold [of ext pt cp perms "print1 ''# Enumerating Solutions'' w"]
  unfolding generateForkedSolutions_def
  by (simp split: prod.splits)

text \<open>
  C1. For every problem type, constant-parameter mapping and list of fork
  permutations, every solution that \<open>generateForkedSolutions\<close> returns is valid, no two
  returned solutions are equal, and the returned list is the list of candidates (one per
  permutation, in the order of the permutations) restricted to the positions whose
  candidate is valid and not seen at an earlier position: first-seen order.
\<close>

theorem generateForkedSolutions_valid_distinct_first_seen:
  "(\<forall>s \<in> set (fst (generateForkedSolutions ext pt cp perms w)). Valid ext s) \<and>
   distinct (fst (generateForkedSolutions ext pt cp perms w)) \<and>
   fst (generateForkedSolutions ext pt cp perms w) =
     map ((!) (map (forkedSolutionObject ext pt cp) perms))
       (filter (\<lambda>i. Valid ext (map (forkedSolutionObject ext pt cp) perms ! i) \<and>
                     map (forkedSolutionObject ext pt cp) perms ! i
                       \<notin> set (take i (map (forkedSolutionObject ext pt cp) perms)))
           [0..<length perms])"
proof (intro conjI)
  show "\<forall>s \<in> set (fst (generateForkedSolutions ext pt cp perms w)). Valid ext s"
    unfolding generateForkedSolutions_set by simp
  show "distinct (fst (generateForkedSolutions ext pt cp perms w))"
    unfolding generateForkedSolutions_fst by (rule distinct_firstSeen)
  show "fst (generateForkedSolutions ext pt cp perms w) =
     map ((!) (map (forkedSolutionObject ext pt cp) perms))
       (filter (\<lambda>i. Valid ext (map (forkedSolutionObject ext pt cp) perms ! i) \<and>
                     map (forkedSolutionObject ext pt cp) perms ! i
                       \<notin> set (take i (map (forkedSolutionObject ext pt cp) perms)))
           [0..<length perms])"
    unfolding generateForkedSolutions_fst by simp
qed

theorem generateForkedSolutions_valid_distinct_first_seen_witness:
  "fst (generateForkedSolutions (exampleCollaborators 0 []) exampleProblemType
          [(''MacroTile0'', VInt 128)]
          [[(''DepthU'', VInt 8)], [(''DepthU'', VInt 0)], [(''DepthU'', VInt 8)],
           [(''DepthU'', VInt 16)]] exampleWorld) =
     [[(''ProblemType'', VDict exampleProblemType), (''MacroTile0'', VInt 128), (''DepthU'', VInt 8)],
      [(''ProblemType'', VDict exampleProblemType), (''MacroTile0'', VInt 128), (''DepthU'', VInt 16)]] \<and>
   Valid (exampleCollaborators 0 [])
     [(''ProblemType'', VDict exampleProblemType), (''MacroTile0'', VInt 128), (''DepthU'', VInt 8)] \<and>
   Valid (exampleCollaborators 0 [])
     [(''ProblemType'', VDict exampleProblemType), (''MacroTile0'', VInt 128), (''DepthU'', VInt 16)] \<and>
   distinct (fst (generateForkedSolutions (exampleCollaborators 0 []) exampleProblemType
          [(''MacroTile0'', VInt 128)]
          [[(''DepthU'', VInt 8)], [(''DepthU'', VInt 0)], [(''DepthU'', VInt 8)],
           [(''DepthU'', VInt 16)]] exampleWorld))"
proof -
  have e: "fst (generateForkedSolutions (exampleCollaborators 0 []) exampleProblemType
          [(''MacroTile0'', VInt 128)]
          [[(''DepthU'', VInt 8)], [(''DepthU'', VInt 0)], [(''DepthU'', VInt 8)],
           [(''DepthU'', VInt 16)]] exampleWorld) =
     [[(''ProblemType'', VDict exampleProblemType), (''MacroTile0'', VInt 128), (''DepthU'', VInt 8)],
      [(''ProblemType'', VDict exampleProblemType), (''MacroTile0'', VInt 128), (''DepthU'', VInt 16)]]"
    by (simp add: generateForkedSolutions_def forkedSolutionStep_def forkedSolutionObject_def
        dict_update_def exampleCollaborators_def Let_def)
  note t = generateForkedSolutions_valid_distinct_first_seen
      [of "exampleCollaborators 0 []" exampleProblemType "[(''MacroTile0'', VInt 128)]"
          "[[(''DepthU'', VInt 8)], [(''DepthU'', VInt 0)], [(''DepthU'', VInt 8)],
            [(''DepthU'', VInt 16)]]" exampleWorld]
  from t [THEN conjunct1, unfolded e]
  have v: "Valid (exampleCollaborators 0 [])
       [(''ProblemType'', VDict exampleProblemType), (''MacroTile0'', VInt 128), (''DepthU'', VInt 8)]"
    "Valid (exampleCollaborators 0 [])
       [(''ProblemType'', VDict exampleProblemType), (''MacroTile0'', VInt 128), (''DepthU'', VInt 16)]"
    by simp_all
  from e v t [THEN conjunct2, THEN conjunct1] show ?thesis
    by (intro conjI)
qed

text \<open>
  C7, as stated, fails: a valid candidate that repeats an earlier one is dropped without
  any notice. With the diagnostic flag set and the same permutation given twice, the
  trace holds the heading only.
\<close>

theorem generateForkedSolutions_duplicate_notice_counterexample:
  "PrintSolutionRejectionReason exampleWorld \<and>
   Valid (exampleCollaborators 0 [])
     (forkedSolutionObject (exampleCollaborators 0 []) exampleProblemType [] [(''DepthU'', VInt 8)]) \<and>
   generateForkedSolutions (exampleCollaborators 0 []) exampleProblemType []
       [[(''DepthU'', VInt 8)], [(''DepthU'', VInt 8)]] exampleWorld =
     ([[(''ProblemType'', VDict exampleProblemType), (''DepthU'', VInt 8)]],
      exampleWorld\<lparr>events := [Print1 ''# Enumerating Solutions'']\<rparr>)"
  by (simp add: generateForkedSolutions_def forkedSolutionStep_def forkedSolutionObject_def
      dict_update_def exampleCollaborators_def exampleWorld_def Let_def print1_def emit_def)

text \<open>
  C7, amended. \<open>generateForkedSolutions\<close> emits the heading and then, when the
  diagnostic flag is set, exactly one rejection notice for every invalid candidate, in the
  order of the candidates, and nothing else (no notice for a duplicate); without the flag
  it emits the heading only. The returned list is the same whatever the flag.
\<close>

theorem generateForkedSolutions_rejection_notices:
  "emitted w (snd (generateForkedSolutions ext pt cp perms w)) =
     Print1 ''# Enumerating Solutions'' #
       (if PrintSolutionRejectionReason w
        then map (\<lambda>s. Print1 (''rejecting solution '' @ strSolution ext s))
               (filter (\<lambda>s. \<not> Valid ext s) (map (forkedSolutionObject ext pt cp) perms))
        else []) \<and>
   fst (generateForkedSolutions ext pt cp perms (w\<lparr>PrintSolutionRejectionReason := flag\<rparr>)) =
   fst (generateForkedSolutions ext pt cp perms w)"
proof
  show "emitted w (snd (generateForkedSolutions ext pt cp perms w)) =
     Print1 ''# Enumerating Solutions'' #
       (if PrintSolutionRejectionReason w
        then map (\<lambda>s. Print1 (''rejecting solution '' @ strSolution ext s))
               (filter (\<lambda>s. \<not> Valid ext s) (map (forkedSolutionObject ext pt cp) perms))
        else [])"
    by (rule emitted_append) (simp add: generateForkedSolutions_snd)
  show "fst (generateForkedSolutions ext pt cp perms (w\<lparr>PrintSolutionRejectionReason := flag\<rparr>)) =
        fst (generateForkedSolutions ext pt cp perms w)"
    unfolding generateForkedSolutions_fst ..
qed

theorem generateForkedSolutions_rejection_notices_witness:
  "emitted exampleWorld
     (snd (generateForkedSolutions (exampleCollaborators 0 []) exampleProblemType []
        [[(''DepthU'', VInt 8)], [(''DepthU'', VInt 0)], [(''DepthU'', VInt 8)]] exampleWorld)) =
     [Print1 ''# Enumerating Solutions'', Print1 ''rejecting solution DU0'']"
  using generateForkedSolutions_rejection_notices
    [of exampleWorld "exampleCollaborators 0 []" exampleProblemType "[]"
        "[[(''DepthU'', VInt 8)], [(''DepthU'', VInt 0)], [(''DepthU'', VInt 8)]]" True]
  by (simp add: forkedSolutionObject_def dict_update_def exampleCollaborators_def
      exampleWorld_def intParam_def decimal.simps)

section \<open>Properties of the custom-kernel resolution\<close>


lemma customKernelLoop_fst_world:
  "fst (customKernelLoop ext pt f ks sols w) = fst (customKernelLoop ext pt f ks sols w')"
proof (induction ks arbitrary: sols w w' f)
  case Nil
  show ?case by simp
next
  case (Cons k ks)
  show ?case
    by (auto simp: Let_def split: sum.splits intro: Cons.IH)
qed


lemma customKernelLoop_world:
  "\<exists>ms. snd (customKernelLoop ext pt f ks sols w) = w\<lparr>events := events w @ map Print1 ms\<rparr>"
proof (induction ks arbitrary: sols w f)
  case Nil
  show ?case by (simp, rule exI [of _ "[]"], simp)
next
  case (Cons k ks)
  have p0: "\<exists>ms. print1 m w = w\<lparr>events := events w @ map Print1 ms\<rparr>" for m
    by (rule exI [of _ "[m]"]) (simp add: print1_def emit_def)
  have step: "\<exists>ms. snd (customKernelLoop ext pt g ks s (w\<lparr>events := events w @ map Print1 ns\<rparr>))
        = w\<lparr>events := events w @ map Print1 ms\<rparr>" for s ns g
  proof -
    from Cons.IH [where sols = s and w = "w\<lparr>events := events w @ map Print1 ns\<rparr>" and f = g]
    obtain ms where "snd (customKernelLoop ext pt g ks s (w\<lparr>events := events w @ map Print1 ns\<rparr>))
        = w\<lparr>events := events w @ map Print1 ns\<rparr>\<lparr>events := events (w\<lparr>events := events w @ map Print1 ns\<rparr>) @ map Print1 ms\<rparr>"
      by blast
    then have "snd (customKernelLoop ext pt g ks s (w\<lparr>events := events w @ map Print1 ns\<rparr>))
        = w\<lparr>events := events w @ map Print1 (ns @ ms)\<rparr>"
      by simp
    then show ?thesis by blast
  qed
  have p1: "\<exists>ms. snd (customKernelLoop ext pt g ks s (print1 m w))
        = w\<lparr>events := events w @ map Print1 ms\<rparr>" for s g m
    using step [of g s "[m]"] by (simp add: print1_def emit_def)
  have p2: "\<exists>ms. snd (customKernelLoop ext pt g ks s (print1 m' (print1 m w)))
        = w\<lparr>events := events w @ map Print1 ms\<rparr>" for s g m m'
    using step [of g s "[m, m']"] by (simp add: print1_def emit_def)
  have p3: "\<exists>ms. snd (customKernelLoop ext pt g ks s (print1 m'' (print1 m' (print1 m w))))
        = w\<lparr>events := events w @ map Print1 ms\<rparr>" for s g m m' m''
    using step [of g s "[m, m', m'']"] by (simp add: print1_def emit_def)
  show ?case
    by (auto simp: Let_def split: sum.splits intro: p0 p1 p2 p3)
qed




section \<open>Properties of writeBenchmarkFiles\<close>

lemma maxMacroTiles_fold:
  "fold (\<lambda>solution (maxMacroTile0, maxMacroTile1).
             (if MacroTile0 ext solution > maxMacroTile0 then MacroTile0 ext solution
              else maxMacroTile0,
              if MacroTile1 ext solution > maxMacroTile1 then MacroTile1 ext solution
              else maxMacroTile1))
        sols (a, b) =
     (fold max (map (MacroTile0 ext) sols) a, fold max (map (MacroTile1 ext) sols) b)"
  by (induction sols arbitrary: a b) (simp_all add: max_def)

lemma maxMacroTiles_Max:
  "maxMacroTiles ext sols =
     (Max (set (0 # map (MacroTile0 ext) sols)), Max (set (0 # map (MacroTile1 ext) sols)))"
  unfolding maxMacroTiles_def maxMacroTiles_fold Max.set_eq_fold ..

lemma maxMacroTiles_eq:
  assumes "\<exists>s \<in> set sols. MacroTile0 ext s = m0" "\<forall>s \<in> set sols. MacroTile0 ext s \<le> m0"
    and "\<exists>s \<in> set sols. MacroTile1 ext s = m1" "\<forall>s \<in> set sols. MacroTile1 ext s \<le> m1"
    and "0 \<le> m0" "0 \<le> m1"
  shows "maxMacroTiles ext sols = (m0, m1)"
proof -
  have "Max (set (0 # map (MacroTile0 ext) sols)) = m0"
    using assms(1,2,5) by (intro Max_eqI) auto
  moreover have "Max (set (0 # map (MacroTile1 ext) sols)) = m1"
    using assms(3,4,6) by (intro Max_eqI) auto
  ultimately show ?thesis
    by (simp add: maxMacroTiles_Max)
qed

lemma checkSolutionsLeft_snd [simp]: "snd (checkSolutionsLeft sols w) = w"
  by (simp add: checkSolutionsLeft_def)

lemma writeBenchmarkFiles_frame:
  "WorkingPath (snd (writeBenchmarkFiles ext base sols ps name sizes w)) = WorkingPath w"
  "ForceRedoBenchmarkProblems (snd (writeBenchmarkFiles ext base sols ps name sizes w)) =
     ForceRedoBenchmarkProblems w"
  "PrintSolutionRejectionReason (snd (writeBenchmarkFiles ext base sols ps name sizes w)) =
     PrintSolutionRejectionReason w"
  by (simp_all add: writeBenchmarkFiles_def Let_def split: list.splits option.splits prod.splits)

lemma writeBenchmarkFiles_events:
  "events (snd (writeBenchmarkFiles ext base sols ps name sizes w)) =
     events w @ emitted w (snd (writeBenchmarkFiles ext base sols ps name sizes w))"
  by (simp add: writeBenchmarkFiles_def Let_def emitted_def
      split: list.splits option.splits prod.splits)

lemma writeBenchmarkFiles_filter:
  assumes "\<not> P CopyStaticFiles" "\<And>d s. \<not> P (WriteSolutionsAndKernels d s)"
    and "\<And>f s. \<not> P (LibraryWrite f s)"
    and "\<And>fb s z n d l c t. \<not> P (WriteClientConfig fb s z n d l c t)"
  shows "filter P (emitted w (snd (writeBenchmarkFiles ext base sols ps name sizes w))) = []"
  using assms
  by (simp add: writeBenchmarkFiles_def Let_def emitted_def
      split: list.splits option.splits prod.splits)

lemma writeBenchmarkFiles_tileAware:
  assumes "sols \<noteq> []"
    and "map_of (solutionProblemType ext (hd sols)) ''TileAwareSelection'' = Some v" "truthy v"
    and "map_of (solutionProblemType ext (hd sols)) ''Batched'' = Some b"
    and "writeSolutionsAndKernels ext (WorkingPath w) sols = (sols', cof)"
  shows "emitted w (snd (writeBenchmarkFiles ext base sols ps name sizes w)) =
     [CopyStaticFiles, WriteSolutionsAndKernels (WorkingPath w) sols,
      LibraryWrite (WorkingPath w @ [''library'', ''TensileLibrary'']) sols',
      WriteClientConfig True sols'
        (ProblemSizes ext (solutionProblemType ext (hd sols))
           (idealSizes (truthy b) (36 * fst (maxMacroTiles ext sols'))
              (36 * snd (maxMacroTiles ext sols')) sizes))
        name base sols' (map (\<lambda>f. relpath f (WorkingPath w)) cof) True]"
  using assms
  by (cases sols)
     (simp_all add: writeBenchmarkFiles_def Let_def emitted_def split: prod.splits)

text \<open>
  C5. Let the problem type of the first solution have \<^verbatim>\<open>TileAwareSelection\<close> set,
  and let the largest \<^verbatim>\<open>MacroTile0\<close> and \<^verbatim>\<open>MacroTile1\<close> over the solutions (as the
  generator leaves them) be 128 and 64. With the summation sizes \<open>[256, 512]\<close>,
  \<open>writeBenchmarkFiles\<close> writes exactly one client configuration, and it is built from
  the exact sizes with M = 36 * 128 = 4608, N = 36 * 64 = 2304 and K = 256 and 512,
  with a batch dimension 1 before K when the problem type is batched; the caller's
  problem sizes \<open>ps\<close> are not used.
\<close>

theorem writeBenchmarkFiles_tile_aware_sizes:
  assumes "sols \<noteq> []"
    and "map_of (solutionProblemType ext (hd sols)) ''TileAwareSelection'' = Some v"
    and "truthy v"
    and "map_of (solutionProblemType ext (hd sols)) ''Batched'' = Some b"
    and "writeSolutionsAndKernels ext (WorkingPath w) sols = (sols', cof)"
    and "\<exists>s \<in> set sols'. MacroTile0 ext s = 128" and "\<forall>s \<in> set sols'. MacroTile0 ext s \<le> 128"
    and "\<exists>s \<in> set sols'. MacroTile1 ext s = 64" and "\<forall>s \<in> set sols'. MacroTile1 ext s \<le> 64"
  shows "filter isWriteClientConfig
           (emitted w (snd (writeBenchmarkFiles ext base sols ps name [256, 512] w))) =
     [WriteClientConfig True sols'
        (ProblemSizes ext (solutionProblemType ext (hd sols))
           (if truthy b
            then [VDict [(''Exact'', VList [VInt 4608, VInt 2304, VInt 1, VInt 256])],
                  VDict [(''Exact'', VList [VInt 4608, VInt 2304, VInt 1, VInt 512])]]
            else [VDict [(''Exact'', VList [VInt 4608, VInt 2304, VInt 256])],
                  VDict [(''Exact'', VList [VInt 4608, VInt 2304, VInt 512])]]))
        name base sols' (map (\<lambda>f. relpath f (WorkingPath w)) cof) True]"
proof -
  have m: "maxMacroTiles ext sols' = (128, 64)"
    using assms(6-9) by (intro maxMacroTiles_eq) simp_all
  show ?thesis
    unfolding writeBenchmarkFiles_tileAware [OF assms(1-5)]
    by (simp add: m idealSizes_def)
qed

theorem writeBenchmarkFiles_tile_aware_sizes_witness:
  "filter isWriteClientConfig
     (emitted exampleWorld
        (snd (writeBenchmarkFiles (exampleCollaborators 0 []) [''build'', ''Final'']
                [tileSolutionA, tileSolutionB]
                [VDict [(''Exact'', VList [VInt 1024, VInt 1024, VInt 1, VInt 1024])]]
                ''Final'' [256, 512] exampleWorld))) =
     [WriteClientConfig True [tileSolutionA, tileSolutionB]
        [VDict [(''Exact'', VList [VInt 4608, VInt 2304, VInt 1, VInt 256])],
         VDict [(''Exact'', VList [VInt 4608, VInt 2304, VInt 1, VInt 512])]]
        ''Final'' [''build'', ''Final''] [tileSolutionA, tileSolutionB]
        [[''library'', ''Kernels.co'']] True]"
proof -
  have h1: "[tileSolutionA, tileSolutionB] \<noteq> []" by simp
  have h2: "map_of (solutionProblemType (exampleCollaborators 0 []) (hd [tileSolutionA, tileSolutionB]))
              ''TileAwareSelection'' = Some (VBool True)"
    by (simp add: exampleCollaborators_def tileSolutionA_def tileAwareProblemType_def)
  have h3: "truthy (VBool True)" by simp
  have h4: "map_of (solutionProblemType (exampleCollaborators 0 []) (hd [tileSolutionA, tileSolutionB]))
              ''Batched'' = Some (VBool True)"
    by (simp add: exampleCollaborators_def tileSolutionA_def tileAwareProblemType_def)
  have h5: "writeSolutionsAndKernels (exampleCollaborators 0 []) (WorkingPath exampleWorld)
              [tileSolutionA, tileSolutionB] =
            ([tileSolutionA, tileSolutionB], [[''build'', ''library'', ''Kernels.co'']])"
    by (simp add: exampleCollaborators_def exampleWorld_def)
  have h6: "\<exists>s \<in> set [tileSolutionA, tileSolutionB]. MacroTile0 (exampleCollaborators 0 []) s = 128"
    by (simp add: exampleCollaborators_def tileSolutionA_def intParam_def)
  have h7: "\<forall>s \<in> set [tileSolutionA, tileSolutionB]. MacroTile0 (exampleCollaborators 0 []) s \<le> 128"
    by (simp add: exampleCollaborators_def tileSolutionA_def tileSolutionB_def intParam_def)
  have h8: "\<exists>s \<in> set [tileSolutionA, tileSolutionB]. MacroTile1 (exampleCollaborators 0 []) s = 64"
    by (simp add: exampleCollaborators_def tileSolutionB_def intParam_def)
  have h9: "\<forall>s \<in> set [tileSolutionA, tileSolutionB]. MacroTile1 (exampleCollaborators 0 []) s \<le> 64"
    by (simp add: exampleCollaborators_def tileSolutionA_def tileSolutionB_def intParam_def)
  have p: "ProblemSizes (exampleCollaborators 0 []) d z = z" for d z
    by (simp add: exampleCollaborators_def)
  have r: "map (\<lambda>f. relpath f (WorkingPath exampleWorld)) [[''build'', ''library'', ''Kernels.co'']]
           = [[''library'', ''Kernels.co'']]"
    by (simp add: exampleWorld_def)
  show ?thesis
    using writeBenchmarkFiles_tile_aware_sizes [OF h1 h2 h3 h4 h5 h6 h7 h8 h9,
        of "[''build'', ''Final'']"
           "[VDict [(''Exact'', VList [VInt 1024, VInt 1024, VInt 1, VInt 1024])]]" "''Final''"]
    unfolding p r by simp
qed

section \<open>Properties of one benchmark step\<close>

lemma filter_Print1:
  "(\<And>m. \<not> P (Print1 m)) \<Longrightarrow> filter P (map Print1 ms) = []"
  by (induction ms) auto

lemma emitted_trans:
  "events w1 = events w @ emitted w w1 \<Longrightarrow> events w2 = events w1 @ emitted w1 w2 \<Longrightarrow>
   emitted w w2 = emitted w w1 @ emitted w1 w2"
  by (metis append.assoc emitted_append)

lemma enumerateSolutions_snd:
  "snd (enumerateSolutions ext pt step w) =
     snd (generateCustomKernelSolutions ext pt (customKernels step) (\<not> customKernelWildcard step)
            (snd (generateForkedSolutions ext pt (constantParams step)
                    (constructForkPermutations ext (forkParams step)) w)))"
  by (simp add: enumerateSolutions_def Let_def split: prod.splits sum.splits)

lemma enumerateSolutions_world:
  "\<exists>ms. snd (enumerateSolutions ext pt step w) = w\<lparr>events := events w @ map Print1 ms\<rparr>"
proof -
  let ?w1 = "snd (generateForkedSolutions ext pt (constantParams step)
                    (constructForkPermutations ext (forkParams step)) w)"
  obtain ms1 where m1: "?w1 = w\<lparr>events := events w @ map Print1 ms1\<rparr>"
  proof
    show "?w1 = w\<lparr>events := events w @ map Print1
        (''# Enumerating Solutions'' #
          (if PrintSolutionRejectionReason w
           then map (\<lambda>s. ''rejecting solution '' @ strSolution ext s)
                  (filter (\<lambda>s. \<not> Valid ext s)
                    (map (forkedSolutionObject ext pt (constantParams step))
                       (constructForkPermutations ext (forkParams step))))
           else []))\<rparr>"
      by (simp add: generateForkedSolutions_snd)
  qed
  obtain ms2 where m2:
    "snd (generateCustomKernelSolutions ext pt (customKernels step)
            (\<not> customKernelWildcard step) ?w1) = ?w1\<lparr>events := events ?w1 @ map Print1 ms2\<rparr>"
    unfolding generateCustomKernelSolutions_def
    using customKernelLoop_world by blast
  have "snd (enumerateSolutions ext pt step w) = w\<lparr>events := events w @ map Print1 (ms1 @ ms2)\<rparr>"
    unfolding enumerateSolutions_snd m2 unfolding m1 by simp
  then show ?thesis by blast
qed

lemma enumerateSolutions_nonempty:
  "enumerateSolutions ext pt step w = (Inr sols, w') \<Longrightarrow> sols \<noteq> []"
  by (auto simp: enumerateSolutions_def Let_def split: prod.splits sum.splits if_splits)

lemma benchmarkStepPrepare_enumerated:
  assumes "enumerateSolutions ext pt step
             (pushWorkingPath ''source'' (pushWorkingPath (stepName step) w)) = (Inr sols, w3)"
  shows "benchmarkStepPrepare ext pt step w =
     (case writeBenchmarkFiles ext (WorkingPath w @ [stepName step]) sols (problemSizes step)
             (stepName step) [] w3 of
        (Inl e, w4) \<Rightarrow> (Inl e, w4)
      | (Inr sols', w4) \<Rightarrow> (Inr sols', popWorkingPath w4))"
  using assms by (simp add: benchmarkStepPrepare_def Let_def)

text \<open>The state in which the step is when the benchmark files are written.\<close>

lemma enumerated_world:
  assumes "enumerateSolutions ext pt step
             (pushWorkingPath ''source'' (pushWorkingPath (stepName step) w)) = (r, w3)"
  shows "\<exists>ms. WorkingPath w3 = WorkingPath w @ [stepName step, ''source''] \<and>
           ForceRedoBenchmarkProblems w3 = ForceRedoBenchmarkProblems w \<and>
           events w3 = events w @
             [PushWorkingPath (stepName step), PushWorkingPath ''source''] @ map Print1 ms"
proof -
  from enumerateSolutions_world
    [of ext pt step "pushWorkingPath ''source'' (pushWorkingPath (stepName step) w)"]
  obtain ms where "w3 = (pushWorkingPath ''source'' (pushWorkingPath (stepName step) w))
      \<lparr>events := events (pushWorkingPath ''source'' (pushWorkingPath (stepName step) w))
                   @ map Print1 ms\<rparr>"
    unfolding assms by auto
  then have "WorkingPath w3 = WorkingPath w @ [stepName step, ''source''] \<and>
           ForceRedoBenchmarkProblems w3 = ForceRedoBenchmarkProblems w \<and>
           events w3 = events w @
             [PushWorkingPath (stepName step), PushWorkingPath ''source''] @ map Print1 ms"
    by simp
  then show ?thesis ..
qed

text \<open>Lines 284-307 written out.\<close>

lemma benchmarkStepRun_result:
  "fst (benchmarkStepRun ext tas step sols (final, fails) w) =
     (if isFinal step then Some (butlast (WorkingPath w) @ [''Data'', stepName step]) else final,
      if (addSuffix (butlast (WorkingPath w) @ [''Data'', stepName step]) ''.csv'' \<notin> files w
            \<or> ForceRedoBenchmarkProblems w) \<and> fst (runClient ext w tas) \<noteq> 0
      then fails + 1 else fails)"
  by (simp add: benchmarkStepRun_def Let_def split: prod.splits)

lemma benchmarkStepRun_events:
  "events (snd (benchmarkStepRun ext tas step sols acc w)) =
     events w @
     (if addSuffix (butlast (WorkingPath w) @ [''Data'', stepName step]) ''.csv'' \<notin> files w
           \<or> ForceRedoBenchmarkProblems w
      then RunClient True tas #
             (if fst (runClient ext w tas) \<noteq> 0 then [PrintWarning (fst (runClient ext w tas))]
              else [])
      else [Print1 ''# Already benchmarked; skipping.'']) @
     [WriteSolutions (addSuffix (butlast (WorkingPath w) @ [''Data'', stepName step]) ''.yaml'')
        (problemSizes step) sols,
      PopWorkingPath]"
  by (cases acc) (simp add: benchmarkStepRun_def Let_def split: prod.splits)

lemma benchmarkStepRun_WorkingPath:
  "WorkingPath (snd (benchmarkStepRun ext tas step sols acc w)) = butlast (WorkingPath w)"
  by (cases acc) (simp add: benchmarkStepRun_def Let_def split: prod.splits)

text \<open>What lines 237-281 leave behind when they do not stop the process.\<close>

lemma benchmarkStepPrepare_Inr:
  assumes "benchmarkStepPrepare ext pt step w = (Inr sols, w1)"
  shows "WorkingPath w1 = WorkingPath w @ [stepName step] \<and>
         ForceRedoBenchmarkProblems w1 = ForceRedoBenchmarkProblems w \<and>
         events w1 = events w @ emitted w w1 \<and>
         filter isRunClient (emitted w w1) = [] \<and>
         filter isWriteSolutions (emitted w w1) = [] \<and>
         filter isPushWorkingPath (emitted w w1) =
           [PushWorkingPath (stepName step), PushWorkingPath ''source''] \<and>
         filter isPopWorkingPath (emitted w w1) = [PopWorkingPath]"
proof -
  let ?w2 = "pushWorkingPath ''source'' (pushWorkingPath (stepName step) w)"
  obtain r w3 where en: "enumerateSolutions ext pt step ?w2 = (r, w3)"
    by (cases "enumerateSolutions ext pt step ?w2") auto
  from enumerated_world [OF en] obtain ms where
    wp3: "WorkingPath w3 = WorkingPath w @ [stepName step, ''source'']" and
    fr3: "ForceRedoBenchmarkProblems w3 = ForceRedoBenchmarkProblems w" and
    ev3: "events w3 = events w @
             [PushWorkingPath (stepName step), PushWorkingPath ''source''] @ map Print1 ms"
    by blast
  from assms en obtain sols0 where r: "r = Inr sols0"
    by (cases r) (auto simp: benchmarkStepPrepare_def Let_def)
  let ?wbf = "writeBenchmarkFiles ext (WorkingPath w @ [stepName step]) sols0 (problemSizes step)
                (stepName step) [] w3"
  from assms have pre: "(case ?wbf of (Inl e, w4) \<Rightarrow> (Inl e, w4)
      | (Inr sols', w4) \<Rightarrow> (Inr sols', popWorkingPath w4)) = (Inr sols, w1)"
    using benchmarkStepPrepare_enumerated [OF en [unfolded r]] by simp
  then have w1: "w1 = popWorkingPath (snd ?wbf)"
    by (cases ?wbf) (auto split: sum.splits)
  let ?E = "emitted w3 (snd ?wbf)"
  have ev4: "events (snd ?wbf) = events w3 @ ?E"
    by (rule writeBenchmarkFiles_events)
  have ev1: "events w1 = events w @
      ([PushWorkingPath (stepName step), PushWorkingPath ''source''] @ map Print1 ms @ ?E
        @ [PopWorkingPath])"
    unfolding w1 by (simp add: ev4 ev3)
  have em: "emitted w w1 =
      [PushWorkingPath (stepName step), PushWorkingPath ''source''] @ map Print1 ms @ ?E
        @ [PopWorkingPath]"
    by (rule emitted_append) (rule ev1)
  have f1: "filter isRunClient ?E = []" by (rule writeBenchmarkFiles_filter) simp_all
  have f2: "filter isWriteSolutions ?E = []" by (rule writeBenchmarkFiles_filter) simp_all
  have f3: "filter isPushWorkingPath ?E = []" by (rule writeBenchmarkFiles_filter) simp_all
  have f4: "filter isPopWorkingPath ?E = []" by (rule writeBenchmarkFiles_filter) simp_all
  have "WorkingPath w1 = WorkingPath w @ [stepName step]"
    unfolding w1 by (simp add: writeBenchmarkFiles_frame wp3 butlast_append)
  moreover have "ForceRedoBenchmarkProblems w1 = ForceRedoBenchmarkProblems w"
    unfolding w1 by (simp add: writeBenchmarkFiles_frame fr3)
  moreover have "events w1 = events w @ emitted w w1"
    unfolding em by (rule ev1)
  moreover have "filter isRunClient (emitted w w1) = []"
    unfolding em by (simp add: f1 filter_Print1)
  moreover have "filter isWriteSolutions (emitted w w1) = []"
    unfolding em by (simp add: f2 filter_Print1)
  moreover have "filter isPushWorkingPath (emitted w w1) =
           [PushWorkingPath (stepName step), PushWorkingPath ''source'']"
    unfolding em by (simp add: f3 filter_Print1)
  moreover have "filter isPopWorkingPath (emitted w w1) = [PopWorkingPath]"
    unfolding em by (simp add: f4 filter_Print1)
  ultimately show ?thesis by blast
qed

lemma benchmarkStepBody_prepared:
  "benchmarkStepPrepare ext pt step w = (Inr sols, w1) \<Longrightarrow>
   benchmarkStepBody ext pt tas step acc w =
     (Inr (fst (benchmarkStepRun ext tas step sols acc w1)),
      snd (benchmarkStepRun ext tas step sols acc w1))"
  by (simp add: benchmarkStepBody_def split: prod.splits)

lemma benchmarkStepBody_Inr:
  "benchmarkStepBody ext pt tas step acc w = (Inr acc', w') \<Longrightarrow>
   \<exists>sols w1. benchmarkStepPrepare ext pt step w = (Inr sols, w1)"
  by (auto simp: benchmarkStepBody_def split: prod.splits sum.splits)

text \<open>The concrete step, evaluated up to the cache check.\<close>

lemma example_prepare_fst:
  "fst (benchmarkStepPrepare (exampleCollaborators rc steps) exampleProblemType
          (exampleStep [VInt 8, VInt 0, VInt 16] []) w) =
     Inr [exampleSolution 8, exampleSolution 16]"
  by (simp add: benchmarkStepPrepare_def enumerateSolutions_def generateForkedSolutions_def
      forkedSolutionStep_def forkedSolutionObject_def dict_update_def
      generateCustomKernelSolutions_def writeBenchmarkFiles_def checkSolutionsLeft_def
      exampleCollaborators_def exampleStep_def exampleProblemType_def exampleSolution_def
      Let_def split: prod.splits)

lemma example_prepare:
  "benchmarkStepPrepare (exampleCollaborators rc steps) exampleProblemType
          (exampleStep [VInt 8, VInt 0, VInt 16] []) w =
     (Inr [exampleSolution 8, exampleSolution 16],
      snd (benchmarkStepPrepare (exampleCollaborators rc steps) exampleProblemType
          (exampleStep [VInt 8, VInt 0, VInt 16] []) w))"
  using example_prepare_fst [of rc steps w] by (simp add: prod_eq_iff)

lemma example_prepare_files:
  "p \<in> files w \<Longrightarrow>
   p \<in> files (snd (benchmarkStepPrepare (exampleCollaborators rc steps) exampleProblemType
          (exampleStep [VInt 8, VInt 0, VInt 16] []) w))"
  by (simp add: benchmarkStepPrepare_def enumerateSolutions_def generateForkedSolutions_def
      forkedSolutionStep_def forkedSolutionObject_def dict_update_def
      generateCustomKernelSolutions_def writeBenchmarkFiles_def checkSolutionsLeft_def
      exampleCollaborators_def exampleStep_def exampleProblemType_def exampleSolution_def
      Let_def split: prod.splits)

text \<open>
  C2. Take a step that reaches the cache check, in the state \<open>w1\<close>, with the solutions
  \<open>sols\<close>. If the results table of the step (the results base with \<^verbatim>\<open>.csv\<close>) exists
  in \<open>w1\<close> and the redo flag is unset, the step does not run the client (otherwise it
  runs it once); in both cases the step writes the solutions file (the results base with
  \<^verbatim>\<open>.yaml\<close>) once, with the problem sizes of the step and \<open>sols\<close>.
\<close>

theorem benchmarkStep_cached_skips_client:
  assumes "benchmarkStepPrepare ext pt step w = (Inr sols, w1)"
  shows "(addSuffix (WorkingPath w @ [''Data'', stepName step]) ''.csv'' \<in> files w1 \<and>
          \<not> ForceRedoBenchmarkProblems w \<longrightarrow>
            filter isRunClient (emitted w (snd (benchmarkStepBody ext pt tas step acc w))) = []) \<and>
         (addSuffix (WorkingPath w @ [''Data'', stepName step]) ''.csv'' \<notin> files w1 \<or>
          ForceRedoBenchmarkProblems w \<longrightarrow>
            filter isRunClient (emitted w (snd (benchmarkStepBody ext pt tas step acc w))) =
              [RunClient True tas]) \<and>
         filter isWriteSolutions (emitted w (snd (benchmarkStepBody ext pt tas step acc w))) =
           [WriteSolutions (addSuffix (WorkingPath w @ [''Data'', stepName step]) ''.yaml'')
              (problemSizes step) sols]"
proof -
  note p = benchmarkStepPrepare_Inr [OF assms]
  let ?w2 = "snd (benchmarkStepRun ext tas step sols acc w1)"
  have b: "snd (benchmarkStepBody ext pt tas step acc w) = ?w2"
    by (simp add: benchmarkStepBody_prepared [OF assms])
  have wp: "butlast (WorkingPath w1) = WorkingPath w"
    using p by simp
  have fr: "ForceRedoBenchmarkProblems w1 = ForceRedoBenchmarkProblems w"
    using p by simp
  have ev: "events ?w2 = events w1 @ emitted w1 ?w2"
    by (simp add: benchmarkStepRun_events emitted_def)
  have em: "emitted w ?w2 = emitted w w1 @ emitted w1 ?w2"
    using p ev by (intro emitted_trans) simp_all
  have r: "emitted w1 ?w2 =
     (if addSuffix (WorkingPath w @ [''Data'', stepName step]) ''.csv'' \<notin> files w1
           \<or> ForceRedoBenchmarkProblems w
      then RunClient True tas #
             (if fst (runClient ext w1 tas) \<noteq> 0 then [PrintWarning (fst (runClient ext w1 tas))]
              else [])
      else [Print1 ''# Already benchmarked; skipping.'']) @
     [WriteSolutions (addSuffix (WorkingPath w @ [''Data'', stepName step]) ''.yaml'')
        (problemSizes step) sols,
      PopWorkingPath]"
    by (rule emitted_append) (simp add: benchmarkStepRun_events wp fr)
  show ?thesis
    unfolding b em r using p by simp
qed

theorem benchmarkStep_cached_skips_client_witness:
  "fst (benchmarkStepPrepare (exampleCollaborators 1 []) exampleProblemType
          (exampleStep [VInt 8, VInt 0, VInt 16] []) cachedWorld) =
     Inr [exampleSolution 8, exampleSolution 16] \<and>
   [''build'', ''Data'', ''Final.csv'']
     \<in> files (snd (benchmarkStepPrepare (exampleCollaborators 1 []) exampleProblemType
          (exampleStep [VInt 8, VInt 0, VInt 16] []) cachedWorld)) \<and>
   \<not> ForceRedoBenchmarkProblems cachedWorld \<and>
   filter isRunClient
     (emitted cachedWorld
        (snd (benchmarkStepBody (exampleCollaborators 1 []) exampleProblemType (VBool False)
                (exampleStep [VInt 8, VInt 0, VInt 16] []) (None, 0) cachedWorld))) = [] \<and>
   filter isWriteSolutions
     (emitted cachedWorld
        (snd (benchmarkStepBody (exampleCollaborators 1 []) exampleProblemType (VBool False)
                (exampleStep [VInt 8, VInt 0, VInt 16] []) (None, 0) cachedWorld))) =
     [WriteSolutions [''build'', ''Data'', ''Final.yaml'']
        [VDict [(''Exact'', VList [VInt 1024, VInt 1024, VInt 1, VInt 1024])]]
        [exampleSolution 8, exampleSolution 16]]"
proof -
  have c: "[''build'', ''Data'', ''Final.csv'']
     \<in> files (snd (benchmarkStepPrepare (exampleCollaborators 1 []) exampleProblemType
          (exampleStep [VInt 8, VInt 0, VInt 16] []) cachedWorld))"
    by (rule example_prepare_files) (simp add: cachedWorld_def)
  have f: "\<not> ForceRedoBenchmarkProblems cachedWorld"
    by (simp add: cachedWorld_def exampleWorld_def)
  have n: "addSuffix (WorkingPath cachedWorld @ [''Data'',
              stepName (exampleStep [VInt 8, VInt 0, VInt 16] [])]) s = [''build'', ''Data'', ''Final'' @ s]"
    for s
    by (simp add: addSuffix_def cachedWorld_def exampleWorld_def exampleStep_def)
  have z: "problemSizes (exampleStep [VInt 8, VInt 0, VInt 16] []) =
      [VDict [(''Exact'', VList [VInt 1024, VInt 1024, VInt 1, VInt 1024])]]"
    by (simp add: exampleStep_def)
  note t = benchmarkStep_cached_skips_client [OF example_prepare [of 1 "[]" cachedWorld],
      where tas = "VBool False" and acc = "(None, 0)", unfolded n z]
  from t c f have
    "filter isRunClient
       (emitted cachedWorld
        (snd (benchmarkStepBody (exampleCollaborators 1 []) exampleProblemType (VBool False)
                (exampleStep [VInt 8, VInt 0, VInt 16] []) (None, 0) cachedWorld))) = []"
    by simp
  with t c f example_prepare_fst [of 1 "[]" cachedWorld] show ?thesis
    by simp
qed

text \<open>
  C4. Take a step that reaches the cache check in the state \<open>w1\<close>, where the client is
  invoked (no results table, or a forced redo) and returns a non-zero code. The step
  does not stop the process: it ends with the failure counter one higher, having called
  the client once and written the solutions file once, and the loop goes on with the
  remaining steps from that state and counter.
\<close>

theorem benchmarkStep_client_failure_counted:
  assumes "benchmarkStepPrepare ext pt step w = (Inr sols, w1)"
    and "addSuffix (WorkingPath w @ [''Data'', stepName step]) ''.csv'' \<notin> files w1 \<or>
         ForceRedoBenchmarkProblems w"
    and "fst (runClient ext w1 tas) \<noteq> 0"
  shows "\<exists>final' w2.
           benchmarkStepBody ext pt tas step (final, fails) w = (Inr (final', fails + 1), w2) \<and>
           filter isRunClient (emitted w w2) = [RunClient True tas] \<and>
           filter isWriteSolutions (emitted w w2) =
             [WriteSolutions (addSuffix (WorkingPath w @ [''Data'', stepName step]) ''.yaml'')
                (problemSizes step) sols] \<and>
           benchmarkStepsLoop ext pt tas (step # rest) (final, fails) w =
             benchmarkStepsLoop ext pt tas rest (final', fails + 1) w2"
proof -
  note p = benchmarkStepPrepare_Inr [OF assms(1)]
  let ?run = "benchmarkStepRun ext tas step sols (final, fails) w1"
  have wp: "butlast (WorkingPath w1) = WorkingPath w"
    using p by simp
  have fr: "ForceRedoBenchmarkProblems w1 = ForceRedoBenchmarkProblems w"
    using p by simp
  have res: "fst ?run =
      (if isFinal step then Some (WorkingPath w @ [''Data'', stepName step]) else final, fails + 1)"
    using assms(2,3) by (simp add: benchmarkStepRun_result wp fr)
  have body: "benchmarkStepBody ext pt tas step (final, fails) w =
      (Inr (if isFinal step then Some (WorkingPath w @ [''Data'', stepName step]) else final,
            fails + 1), snd ?run)"
    unfolding benchmarkStepBody_prepared [OF assms(1)] res ..
  have ev: "events (snd ?run) = events w1 @ emitted w1 (snd ?run)"
    by (simp add: benchmarkStepRun_events emitted_def)
  have em: "emitted w (snd ?run) = emitted w w1 @ emitted w1 (snd ?run)"
    using p ev by (intro emitted_trans) simp_all
  have r: "emitted w1 (snd ?run) =
     [RunClient True tas, PrintWarning (fst (runClient ext w1 tas)),
      WriteSolutions (addSuffix (WorkingPath w @ [''Data'', stepName step]) ''.yaml'')
        (problemSizes step) sols,
      PopWorkingPath]"
    using assms(2,3) by (intro emitted_append) (simp add: benchmarkStepRun_events wp fr)
  have f1: "filter isRunClient (emitted w (snd ?run)) = [RunClient True tas]"
    unfolding em r using p by simp
  have f2: "filter isWriteSolutions (emitted w (snd ?run)) =
             [WriteSolutions (addSuffix (WorkingPath w @ [''Data'', stepName step]) ''.yaml'')
                (problemSizes step) sols]"
    unfolding em r using p by simp
  have loop: "benchmarkStepsLoop ext pt tas (step # rest) (final, fails) w =
      benchmarkStepsLoop ext pt tas rest
        (if isFinal step then Some (WorkingPath w @ [''Data'', stepName step]) else final,
         fails + 1) (snd ?run)"
    by (simp add: body)
  from body f1 f2 loop show ?thesis by blast
qed

theorem benchmarkStep_client_failure_counted_witness:
  "[''build'', ''Data'', ''Final.csv'']
     \<notin> files (snd (benchmarkStepPrepare (exampleCollaborators 1 []) exampleProblemType
          (exampleStep [VInt 8, VInt 0, VInt 16] []) exampleWorld)) \<and>
   fst (runClient (exampleCollaborators 1 [])
          (snd (benchmarkStepPrepare (exampleCollaborators 1 []) exampleProblemType
             (exampleStep [VInt 8, VInt 0, VInt 16] []) exampleWorld)) (VBool False)) = 1 \<and>
   fst (benchmarkStepBody (exampleCollaborators 1 []) exampleProblemType (VBool False)
          (exampleStep [VInt 8, VInt 0, VInt 16] []) (None, 4) exampleWorld) =
     Inr (Some [''build'', ''Data'', ''Final''], 5)"
proof -
  have c: "addSuffix (WorkingPath exampleWorld @ [''Data'',
              stepName (exampleStep [VInt 8, VInt 0, VInt 16] [])]) ''.csv''
     \<notin> files (snd (benchmarkStepPrepare (exampleCollaborators 1 []) exampleProblemType
          (exampleStep [VInt 8, VInt 0, VInt 16] []) exampleWorld)) \<or>
     ForceRedoBenchmarkProblems exampleWorld"
    by (simp add: benchmarkStepPrepare_def enumerateSolutions_def generateForkedSolutions_def
      forkedSolutionStep_def forkedSolutionObject_def dict_update_def
      generateCustomKernelSolutions_def writeBenchmarkFiles_def checkSolutionsLeft_def
      exampleCollaborators_def exampleStep_def exampleProblemType_def exampleWorld_def
      addSuffix_def Let_def split: prod.splits)
  have n: "addSuffix (WorkingPath exampleWorld @ [''Data'',
              stepName (exampleStep [VInt 8, VInt 0, VInt 16] [])]) ''.csv'' =
           [''build'', ''Data'', ''Final.csv'']"
    by (simp add: addSuffix_def exampleWorld_def exampleStep_def)
  have f: "\<not> ForceRedoBenchmarkProblems exampleWorld"
    by (simp add: exampleWorld_def)
  have rc: "fst (runClient (exampleCollaborators 1 []) w' (VBool False)) = 1" for w'
    by (simp add: exampleCollaborators_def)
  have rc': "fst (runClient (exampleCollaborators 1 [])
          (snd (benchmarkStepPrepare (exampleCollaborators 1 []) exampleProblemType
             (exampleStep [VInt 8, VInt 0, VInt 16] []) exampleWorld)) (VBool False)) \<noteq> 0"
    by (simp add: rc)
  from benchmarkStep_client_failure_counted [OF example_prepare [of 1 "[]" exampleWorld] c rc',
      where final = None and fails = 4 and rest = "[]"]
  obtain final' where
    "fst (benchmarkStepBody (exampleCollaborators 1 []) exampleProblemType (VBool False)
          (exampleStep [VInt 8, VInt 0, VInt 16] []) (None, 4) exampleWorld) = Inr (final', 5)"
    by auto
  moreover have "fst (benchmarkStepBody (exampleCollaborators 1 []) exampleProblemType (VBool False)
          (exampleStep [VInt 8, VInt 0, VInt 16] []) (None, 4) exampleWorld) =
      Inr (Some [''build'', ''Data'', ''Final''], 5)"
    by (simp add: benchmarkStepBody_def benchmarkStepRun_def
      benchmarkStepPrepare_def enumerateSolutions_def generateForkedSolutions_def
      forkedSolutionStep_def forkedSolutionObject_def dict_update_def
      generateCustomKernelSolutions_def writeBenchmarkFiles_def checkSolutionsLeft_def
      exampleCollaborators_def exampleStep_def exampleProblemType_def exampleWorld_def
      addSuffix_def Let_def split: prod.splits)
  ultimately have "fst (benchmarkStepBody (exampleCollaborators 1 []) exampleProblemType (VBool False)
          (exampleStep [VInt 8, VInt 0, VInt 16] []) (None, 4) exampleWorld) =
     Inr (Some [''build'', ''Data'', ''Final''], 5)"
    by simp
  with c [unfolded n] f rc show ?thesis
    by simp
qed

text \<open>
  C9. When the body of the step loop ends without a fatal stop, the working path is
  what it was before the step, and the step has pushed exactly twice (the step directory,
  then \<^verbatim>\<open>source\<close>) and popped exactly twice; this holds whether the client ran,
  was skipped, or returned a non-zero code.
\<close>

theorem benchmarkStep_working_path_restored:
  assumes "benchmarkStepBody ext pt tas step acc w = (Inr acc', w')"
  shows "WorkingPath w' = WorkingPath w \<and>
         filter isPushWorkingPath (emitted w w') =
           [PushWorkingPath (stepName step), PushWorkingPath ''source''] \<and>
         filter isPopWorkingPath (emitted w w') = [PopWorkingPath, PopWorkingPath]"
proof -
  from benchmarkStepBody_Inr [OF assms] obtain sols w1
    where prep: "benchmarkStepPrepare ext pt step w = (Inr sols, w1)"
    by blast
  note p = benchmarkStepPrepare_Inr [OF prep]
  let ?run = "benchmarkStepRun ext tas step sols acc w1"
  have w': "w' = snd ?run"
    using assms unfolding benchmarkStepBody_prepared [OF prep] by simp
  have ev: "events (snd ?run) = events w1 @ emitted w1 (snd ?run)"
    by (simp add: benchmarkStepRun_events emitted_def)
  have em: "emitted w (snd ?run) = emitted w w1 @ emitted w1 (snd ?run)"
    using p ev by (intro emitted_trans) simp_all
  have r: "emitted w1 (snd ?run) =
     (if addSuffix (butlast (WorkingPath w1) @ [''Data'', stepName step]) ''.csv'' \<notin> files w1
           \<or> ForceRedoBenchmarkProblems w1
      then RunClient True tas #
             (if fst (runClient ext w1 tas) \<noteq> 0 then [PrintWarning (fst (runClient ext w1 tas))]
              else [])
      else [Print1 ''# Already benchmarked; skipping.'']) @
     [WriteSolutions (addSuffix (butlast (WorkingPath w1) @ [''Data'', stepName step]) ''.yaml'')
        (problemSizes step) sols,
      PopWorkingPath]"
    by (rule emitted_append) (simp add: benchmarkStepRun_events)
  have "WorkingPath w' = WorkingPath w"
    unfolding w' using p by (simp add: benchmarkStepRun_WorkingPath)
  moreover have "filter isPushWorkingPath (emitted w w') =
           [PushWorkingPath (stepName step), PushWorkingPath ''source'']"
    unfolding w' em r using p by simp
  moreover have "filter isPopWorkingPath (emitted w w') = [PopWorkingPath, PopWorkingPath]"
    unfolding w' em r using p by simp
  ultimately show ?thesis by blast
qed

theorem benchmarkStep_working_path_restored_witness:
  "fst (benchmarkStepBody (exampleCollaborators 1 []) exampleProblemType (VBool False)
          (exampleStep [VInt 8, VInt 0, VInt 16] []) (None, 0) cachedWorld) =
     Inr (Some [''build'', ''Data'', ''Final''], 0) \<and>
   WorkingPath (snd (benchmarkStepBody (exampleCollaborators 1 []) exampleProblemType (VBool False)
          (exampleStep [VInt 8, VInt 0, VInt 16] []) (None, 0) cachedWorld)) = [''build''] \<and>
   filter isPopWorkingPath
     (emitted cachedWorld
        (snd (benchmarkStepBody (exampleCollaborators 1 []) exampleProblemType (VBool False)
          (exampleStep [VInt 8, VInt 0, VInt 16] []) (None, 0) cachedWorld))) =
     [PopWorkingPath, PopWorkingPath]"
proof -
  have e: "fst (benchmarkStepBody (exampleCollaborators 1 []) exampleProblemType (VBool False)
          (exampleStep [VInt 8, VInt 0, VInt 16] []) (None, 0) cachedWorld) =
      Inr (Some [''build'', ''Data'', ''Final''], 0)"
    by (simp add: benchmarkStepBody_def benchmarkStepRun_def
      benchmarkStepPrepare_def enumerateSolutions_def generateForkedSolutions_def
      forkedSolutionStep_def forkedSolutionObject_def dict_update_def
      generateCustomKernelSolutions_def writeBenchmarkFiles_def checkSolutionsLeft_def
      exampleCollaborators_def exampleStep_def exampleProblemType_def exampleWorld_def
      cachedWorld_def addSuffix_def Let_def split: prod.splits)
  then have b: "benchmarkStepBody (exampleCollaborators 1 []) exampleProblemType (VBool False)
          (exampleStep [VInt 8, VInt 0, VInt 16] []) (None, 0) cachedWorld =
      (Inr (Some [''build'', ''Data'', ''Final''], 0),
       snd (benchmarkStepBody (exampleCollaborators 1 []) exampleProblemType (VBool False)
          (exampleStep [VInt 8, VInt 0, VInt 16] []) (None, 0) cachedWorld))"
    by (simp add: prod_eq_iff)
  have wp: "WorkingPath cachedWorld = [''build'']"
    by (simp add: cachedWorld_def exampleWorld_def)
  from benchmarkStep_working_path_restored [OF b] e wp show ?thesis
    by simp
qed

lemma writeBenchmarkFiles_tileAware_fst:
  assumes "sols \<noteq> []"
    and "map_of (solutionProblemType ext (hd sols)) ''TileAwareSelection'' = Some v" "truthy v"
    and "map_of (solutionProblemType ext (hd sols)) ''Batched'' = Some b"
    and "writeSolutionsAndKernels ext (WorkingPath w) sols = (sols', cof)"
  shows "fst (writeBenchmarkFiles ext base sols ps name sizes w) =
     (if sols' = [] then Inl (PrintExit ZeroSolutionsAfterWrite) else Inr sols')"
  using assms
  by (cases sols)
     (simp_all add: writeBenchmarkFiles_def Let_def checkSolutionsLeft_def split: prod.splits)

text \<open>
  C10. In every step whose enumeration yields solutions, the loop body calls
  \<open>writeBenchmarkFiles\<close> with the empty list of summation sizes. Hence, when the problem
  type (that of the first solution, which is the one \<open>writeBenchmarkFiles\<close> reads) has
  \<^verbatim>\<open>TileAwareSelection\<close> set, the one client configuration written in the step is
  built from the empty list of sizes.
\<close>

theorem benchmarkStep_tile_aware_empty_sizes:
  assumes "enumerateSolutions ext pt step
             (pushWorkingPath ''source'' (pushWorkingPath (stepName step) w)) = (Inr sols, w3)"
    and "map_of (solutionProblemType ext (hd sols)) ''TileAwareSelection'' = Some v"
    and "truthy v"
    and "map_of (solutionProblemType ext (hd sols)) ''Batched'' = Some b"
    and "writeSolutionsAndKernels ext (WorkingPath w @ [stepName step, ''source'']) sols =
           (sols', cof)"
  shows "benchmarkStepPrepare ext pt step w =
           (case writeBenchmarkFiles ext (WorkingPath w @ [stepName step]) sols
                   (problemSizes step) (stepName step) [] w3 of
              (Inl e, w4) \<Rightarrow> (Inl e, w4)
            | (Inr sols'', w4) \<Rightarrow> (Inr sols'', popWorkingPath w4)) \<and>
         filter isWriteClientConfig
           (emitted w (snd (benchmarkStepBody ext pt tas step acc w))) =
           [WriteClientConfig True sols'
              (ProblemSizes ext (solutionProblemType ext (hd sols)) [])
              (stepName step) (WorkingPath w @ [stepName step]) sols'
              (map (\<lambda>f. relpath f (WorkingPath w @ [stepName step, ''source''])) cof) True]"
proof
  note prep = benchmarkStepPrepare_enumerated [OF assms(1)]
  show "benchmarkStepPrepare ext pt step w =
           (case writeBenchmarkFiles ext (WorkingPath w @ [stepName step]) sols
                   (problemSizes step) (stepName step) [] w3 of
              (Inl e, w4) \<Rightarrow> (Inl e, w4)
            | (Inr sols'', w4) \<Rightarrow> (Inr sols'', popWorkingPath w4))"
    by (rule prep)
  from enumerated_world [OF assms(1)] obtain ms where
    wp3: "WorkingPath w3 = WorkingPath w @ [stepName step, ''source'']" and
    ev3: "events w3 = events w @
             [PushWorkingPath (stepName step), PushWorkingPath ''source''] @ map Print1 ms"
    by blast
  have ne: "sols \<noteq> []"
    using assms(1) by (rule enumerateSolutions_nonempty)
  let ?wbf = "writeBenchmarkFiles ext (WorkingPath w @ [stepName step]) sols (problemSizes step)
                (stepName step) [] w3"
  let ?cfg = "WriteClientConfig True sols'
              (ProblemSizes ext (solutionProblemType ext (hd sols)) [])
              (stepName step) (WorkingPath w @ [stepName step]) sols'
              (map (\<lambda>f. relpath f (WorkingPath w @ [stepName step, ''source''])) cof) True"
  have gen: "writeSolutionsAndKernels ext (WorkingPath w3) sols = (sols', cof)"
    unfolding wp3 by (rule assms(5))
  have E: "emitted w3 (snd ?wbf) =
     [CopyStaticFiles, WriteSolutionsAndKernels (WorkingPath w3) sols,
      LibraryWrite (WorkingPath w3 @ [''library'', ''TensileLibrary'']) sols', ?cfg]"
    unfolding writeBenchmarkFiles_tileAware [OF ne assms(2,3,4) gen]
    by (simp add: idealSizes_def wp3)
  have ev4: "events (snd ?wbf) = events w @
      ([PushWorkingPath (stepName step), PushWorkingPath ''source''] @ map Print1 ms @
       [CopyStaticFiles, WriteSolutionsAndKernels (WorkingPath w3) sols,
        LibraryWrite (WorkingPath w3 @ [''library'', ''TensileLibrary'']) sols', ?cfg])"
    using writeBenchmarkFiles_events [of ext "WorkingPath w @ [stepName step]" sols
        "problemSizes step" "stepName step" "[]" w3]
    unfolding E ev3 by simp
  have res: "fst ?wbf = (if sols' = [] then Inl (PrintExit ZeroSolutionsAfterWrite) else Inr sols')"
    by (rule writeBenchmarkFiles_tileAware_fst [OF ne assms(2,3,4) gen])
  show "filter isWriteClientConfig
           (emitted w (snd (benchmarkStepBody ext pt tas step acc w))) = [?cfg]"
  proof (cases "sols' = []")
    case True
    obtain w4 where wr: "?wbf = (Inl (PrintExit ZeroSolutionsAfterWrite), w4)"
      using res True by (cases ?wbf) auto
    have s4: "snd ?wbf = w4"
      by (simp add: wr)
    have "snd (benchmarkStepBody ext pt tas step acc w) = w4"
      unfolding benchmarkStepBody_def prep wr by simp
    then show ?thesis
      using ev4 unfolding s4 by (simp add: emitted_append filter_Print1)
  next
    case False
    obtain w4 where wr: "?wbf = (Inr sols', w4)"
      using res False by (cases ?wbf) auto
    have s4: "snd ?wbf = w4"
      by (simp add: wr)
    let ?w1 = "popWorkingPath w4"
    let ?run = "benchmarkStepRun ext tas step sols' acc ?w1"
    have b: "snd (benchmarkStepBody ext pt tas step acc w) = snd ?run"
      unfolding benchmarkStepBody_def prep wr by (simp split: prod.splits)
    have "events (snd ?run) = events w @
      (([PushWorkingPath (stepName step), PushWorkingPath ''source''] @ map Print1 ms @
       [CopyStaticFiles, WriteSolutionsAndKernels (WorkingPath w3) sols,
        LibraryWrite (WorkingPath w3 @ [''library'', ''TensileLibrary'']) sols', ?cfg]) @
       PopWorkingPath #
       (if addSuffix (butlast (WorkingPath ?w1) @ [''Data'', stepName step]) ''.csv'' \<notin> files ?w1
           \<or> ForceRedoBenchmarkProblems ?w1
        then RunClient True tas #
             (if fst (runClient ext ?w1 tas) \<noteq> 0 then [PrintWarning (fst (runClient ext ?w1 tas))]
              else [])
        else [Print1 ''# Already benchmarked; skipping.'']) @
       [WriteSolutions (addSuffix (butlast (WorkingPath ?w1) @ [''Data'', stepName step]) ''.yaml'')
          (problemSizes step) sols',
        PopWorkingPath])"
      unfolding benchmarkStepRun_events using ev4 unfolding s4 by simp
    then show ?thesis
      unfolding b by (simp add: emitted_append filter_Print1)
  qed
qed

theorem benchmarkStep_tile_aware_empty_sizes_witness:
  "fst (enumerateSolutions (exampleCollaborators 0 []) tileAwareProblemType
          (exampleStep [VInt 8] [])
          (pushWorkingPath ''source'' (pushWorkingPath ''Final'' exampleWorld))) =
     Inr [[(''ProblemType'', VDict tileAwareProblemType), (''MacroTile0'', VInt 128),
           (''MacroTile1'', VInt 64), (''DepthU'', VInt 8)]] \<and>
   map_of tileAwareProblemType ''TileAwareSelection'' = Some (VBool True) \<and>
   filter isWriteClientConfig
     (emitted exampleWorld
        (snd (benchmarkStepBody (exampleCollaborators 0 []) tileAwareProblemType (VBool True)
                (exampleStep [VInt 8] []) (None, 0) exampleWorld))) =
     [WriteClientConfig True
        [[(''ProblemType'', VDict tileAwareProblemType), (''MacroTile0'', VInt 128),
          (''MacroTile1'', VInt 64), (''DepthU'', VInt 8)]]
        [] ''Final'' [''build'', ''Final'']
        [[(''ProblemType'', VDict tileAwareProblemType), (''MacroTile0'', VInt 128),
          (''MacroTile1'', VInt 64), (''DepthU'', VInt 8)]]
        [[''library'', ''Kernels.co'']] True]"
proof -
  let ?s = "[(''ProblemType'', VDict tileAwareProblemType), (''MacroTile0'', VInt 128),
           (''MacroTile1'', VInt 64), (''DepthU'', VInt 8)]"
  let ?w2 = "pushWorkingPath ''source'' (pushWorkingPath ''Final'' exampleWorld)"
  have n: "stepName (exampleStep [VInt 8] []) = ''Final''"
    by (simp add: exampleStep_def)
  have wp: "WorkingPath exampleWorld = [''build'']"
    by (simp add: exampleWorld_def)
  have e: "fst (enumerateSolutions (exampleCollaborators 0 []) tileAwareProblemType
          (exampleStep [VInt 8] []) ?w2) = Inr [?s]"
    by (simp add: enumerateSolutions_def generateForkedSolutions_def
      forkedSolutionStep_def forkedSolutionObject_def dict_update_def
      generateCustomKernelSolutions_def exampleCollaborators_def exampleStep_def
      Let_def split: prod.splits)
  then have h1: "enumerateSolutions (exampleCollaborators 0 []) tileAwareProblemType
          (exampleStep [VInt 8] [])
          (pushWorkingPath ''source''
             (pushWorkingPath (stepName (exampleStep [VInt 8] [])) exampleWorld)) =
      (Inr [?s], snd (enumerateSolutions (exampleCollaborators 0 []) tileAwareProblemType
          (exampleStep [VInt 8] []) ?w2))"
    unfolding n by (simp add: prod_eq_iff)
  have t: "map_of tileAwareProblemType ''TileAwareSelection'' = Some (VBool True)"
    by (simp add: tileAwareProblemType_def)
  have h2: "map_of (solutionProblemType (exampleCollaborators 0 []) (hd [?s]))
              ''TileAwareSelection'' = Some (VBool True)"
    by (simp add: exampleCollaborators_def tileAwareProblemType_def)
  have h3: "truthy (VBool True)" by simp
  have h4: "map_of (solutionProblemType (exampleCollaborators 0 []) (hd [?s]))
              ''Batched'' = Some (VBool True)"
    by (simp add: exampleCollaborators_def tileAwareProblemType_def)
  have h5: "writeSolutionsAndKernels (exampleCollaborators 0 [])
              (WorkingPath exampleWorld @ [stepName (exampleStep [VInt 8] []), ''source'']) [?s] =
            ([?s], [[''build'', ''Final'', ''source'', ''library'', ''Kernels.co'']])"
    by (simp add: exampleCollaborators_def exampleWorld_def exampleStep_def)
  have p: "ProblemSizes (exampleCollaborators 0 []) d z = z" for d z
    by (simp add: exampleCollaborators_def)
  from benchmarkStep_tile_aware_empty_sizes [OF h1 h2 h3 h4 h5,
      where tas = "VBool True" and acc = "(None, 0)", THEN conjunct2, unfolded p n wp]
  have "filter isWriteClientConfig
     (emitted exampleWorld
        (snd (benchmarkStepBody (exampleCollaborators 0 []) tileAwareProblemType (VBool True)
                (exampleStep [VInt 8] []) (None, 0) exampleWorld))) =
     [WriteClientConfig True [?s] [] ''Final'' [''build'', ''Final''] [?s]
        [[''library'', ''Kernels.co'']] True]"
    by simp
  with e t show ?thesis
    by (intro conjI)
qed

section \<open>The enumeration phase and the empty pipeline\<close>

lemma generateCustomKernelSolutions_fst_world:
  "fst (generateCustomKernelSolutions ext pt ks f w) =
   fst (generateCustomKernelSolutions ext pt ks f w')"
  unfolding generateCustomKernelSolutions_def by (rule customKernelLoop_fst_world)

lemma enumerateSolutions_flag:
  "PrintSolutionRejectionReason (snd (enumerateSolutions ext pt step w)) =
   PrintSolutionRejectionReason w"
  using enumerateSolutions_world [of ext pt step w] by auto

lemma enumerateSolutions_all_invalid:
  assumes "\<forall>perm \<in> set (constructForkPermutations ext (forkParams step)).
             \<not> Valid ext (forkedSolutionObject ext pt (constantParams step) perm)"
  shows "fst (enumerateSolutions ext pt step w) =
     (case fst (generateCustomKernelSolutions ext pt (customKernels step)
                  (\<not> customKernelWildcard step) w) of
        Inl e \<Rightarrow> Inl e
      | Inr kcSolutions \<Rightarrow>
          if kcSolutions = []
          then Inl (PrintExit (ZeroValidSolutions (PrintSolutionRejectionReason w)))
          else Inr kcSolutions)"
proof -
  let ?g = "generateForkedSolutions ext pt (constantParams step)
              (constructForkPermutations ext (forkParams step)) w"
  let ?c = "generateCustomKernelSolutions ext pt (customKernels step)
              (\<not> customKernelWildcard step) (snd ?g)"
  have "set (fst ?g) = {}"
    unfolding generateForkedSolutions_set using assms by auto
  then have g: "?g = ([], snd ?g)"
    by (simp add: prod_eq_iff)
  have fl: "PrintSolutionRejectionReason (snd ?c) = PrintSolutionRejectionReason w"
    using enumerateSolutions_flag [of ext pt step w] unfolding enumerateSolutions_snd .
  have cw: "fst (generateCustomKernelSolutions ext pt (customKernels step)
                  (\<not> customKernelWildcard step) w) = fst ?c"
    by (rule generateCustomKernelSolutions_fst_world)
  obtain r w2 where c: "?c = (r, w2)"
    by (cases ?c) auto
  have fl2: "PrintSolutionRejectionReason w2 = PrintSolutionRejectionReason w"
    using fl unfolding c by simp
  have "enumerateSolutions ext pt step w =
      (case r of
         Inl e \<Rightarrow> (Inl e, w2)
       | Inr kcSolutions \<Rightarrow>
           if kcSolutions = []
           then (Inl (PrintExit (ZeroValidSolutions (PrintSolutionRejectionReason w))), w2)
           else (Inr kcSolutions, w2))"
    unfolding enumerateSolutions_def Let_def
    by (subst g) (simp add: c fl2 split: sum.splits)
  then show ?thesis
    unfolding cw c by (simp split: sum.splits)
qed

text \<open>
  C6, as stated, fails: with every fork permutation invalid and a custom kernel that
  matches and is valid, \<open>generateForkedSolutions\<close> returns the empty list and yet the
  enumeration does not stop; the step goes on with the custom kernel's solution.
\<close>

theorem enumerateSolutions_custom_kernel_counterexample:
  "\<not> Valid (exampleCollaborators 0 [])
      (forkedSolutionObject (exampleCollaborators 0 []) exampleProblemType
         (constantParams (exampleStep [VInt 0] [''kernelA''])) [(''DepthU'', VInt 0)]) \<and>
   constructForkPermutations (exampleCollaborators 0 [])
      (forkParams (exampleStep [VInt 0] [''kernelA''])) = [[(''DepthU'', VInt 0)]] \<and>
   fst (generateForkedSolutions (exampleCollaborators 0 []) exampleProblemType
          (constantParams (exampleStep [VInt 0] [''kernelA'']))
          [[(''DepthU'', VInt 0)]] exampleWorld) = [] \<and>
   fst (enumerateSolutions (exampleCollaborators 0 []) exampleProblemType
          (exampleStep [VInt 0] [''kernelA'']) exampleWorld) =
     Inr [exampleKernelConfig ''kernelA'' @
            [(''KernelLanguage'', VStr ''Assembly''), (''CustomKernelName'', VStr ''kernelA'')]]"
  by (simp add: enumerateSolutions_def generateForkedSolutions_def
      forkedSolutionStep_def forkedSolutionObject_def dict_update_def
      generateCustomKernelSolutions_def getCustomKernelSolutionObj_def dict_eq_def
      exampleCollaborators_def exampleStep_def exampleKernelConfig_def exampleProblemType_def
      Let_def split: prod.splits)

text \<open>
  C6, amended. If every fork permutation of a step yields an invalid solution,
  \<open>generateForkedSolutions\<close> returns the empty list, and the outcome of the enumeration
  is decided by the custom kernels: a fatal stop of their resolution is the outcome; if
  they contribute no solution the enumeration stops fatally with the
  zero-valid-solutions message (the concatenation is empty), and so does the step;
  otherwise the enumeration yields their solutions.
\<close>

theorem enumerateSolutions_all_forks_invalid:
  assumes "\<forall>perm \<in> set (constructForkPermutations ext (forkParams step)).
             \<not> Valid ext (forkedSolutionObject ext pt (constantParams step) perm)"
  shows "fst (generateForkedSolutions ext pt (constantParams step)
                (constructForkPermutations ext (forkParams step)) w) = [] \<and>
         fst (enumerateSolutions ext pt step w) =
           (case fst (generateCustomKernelSolutions ext pt (customKernels step)
                        (\<not> customKernelWildcard step) w) of
              Inl e \<Rightarrow> Inl e
            | Inr kcSolutions \<Rightarrow>
                if kcSolutions = []
                then Inl (PrintExit (ZeroValidSolutions (PrintSolutionRejectionReason w)))
                else Inr kcSolutions) \<and>
         (fst (generateCustomKernelSolutions ext pt (customKernels step)
                 (\<not> customKernelWildcard step) w) = Inr [] \<longrightarrow>
          fst (benchmarkStepBody ext pt tas step acc w) =
            Inl (PrintExit (ZeroValidSolutions (PrintSolutionRejectionReason w))))"
proof (intro conjI impI)
  have "set (fst (generateForkedSolutions ext pt (constantParams step)
                (constructForkPermutations ext (forkParams step)) w)) = {}"
    unfolding generateForkedSolutions_set using assms by auto
  then show "fst (generateForkedSolutions ext pt (constantParams step)
                (constructForkPermutations ext (forkParams step)) w) = []"
    by simp
  show "fst (enumerateSolutions ext pt step w) =
           (case fst (generateCustomKernelSolutions ext pt (customKernels step)
                        (\<not> customKernelWildcard step) w) of
              Inl e \<Rightarrow> Inl e
            | Inr kcSolutions \<Rightarrow>
                if kcSolutions = []
                then Inl (PrintExit (ZeroValidSolutions (PrintSolutionRejectionReason w)))
                else Inr kcSolutions)"
    by (rule enumerateSolutions_all_invalid [OF assms])
next
  assume none: "fst (generateCustomKernelSolutions ext pt (customKernels step)
                 (\<not> customKernelWildcard step) w) = Inr []"
  let ?w2 = "pushWorkingPath ''source'' (pushWorkingPath (stepName step) w)"
  have "fst (generateCustomKernelSolutions ext pt (customKernels step)
                 (\<not> customKernelWildcard step) ?w2) = Inr []"
    using none generateCustomKernelSolutions_fst_world [of ext pt _ _ ?w2 w] by simp
  then have "fst (enumerateSolutions ext pt step ?w2) =
      Inl (PrintExit (ZeroValidSolutions (PrintSolutionRejectionReason w)))"
    unfolding enumerateSolutions_all_invalid [OF assms] by simp
  then obtain w3 where "enumerateSolutions ext pt step ?w2 =
      (Inl (PrintExit (ZeroValidSolutions (PrintSolutionRejectionReason w))), w3)"
    by (cases "enumerateSolutions ext pt step ?w2") auto
  then show "fst (benchmarkStepBody ext pt tas step acc w) =
            Inl (PrintExit (ZeroValidSolutions (PrintSolutionRejectionReason w)))"
    by (simp add: benchmarkStepBody_def benchmarkStepPrepare_def Let_def)
qed

theorem enumerateSolutions_all_forks_invalid_witness:
  "\<not> Valid (exampleCollaborators 0 [])
      (forkedSolutionObject (exampleCollaborators 0 []) exampleProblemType
         (constantParams (exampleStep [VInt 0] [])) [(''DepthU'', VInt 0)]) \<and>
   fst (generateCustomKernelSolutions (exampleCollaborators 0 []) exampleProblemType
          (customKernels (exampleStep [VInt 0] []))
          (\<not> customKernelWildcard (exampleStep [VInt 0] [])) exampleWorld) = Inr [] \<and>
   fst (enumerateSolutions (exampleCollaborators 0 []) exampleProblemType
          (exampleStep [VInt 0] []) exampleWorld) =
     Inl (PrintExit (ZeroValidSolutions True)) \<and>
   fst (benchmarkStepBody (exampleCollaborators 0 []) exampleProblemType (VBool False)
          (exampleStep [VInt 0] []) (None, 0) exampleWorld) =
     Inl (PrintExit (ZeroValidSolutions True))"
proof -
  have v: "\<not> Valid (exampleCollaborators 0 [])
      (forkedSolutionObject (exampleCollaborators 0 []) exampleProblemType
         (constantParams (exampleStep [VInt 0] [])) [(''DepthU'', VInt 0)])"
    by (simp add: forkedSolutionObject_def dict_update_def exampleCollaborators_def
        exampleStep_def)
  have perms: "constructForkPermutations (exampleCollaborators 0 [])
      (forkParams (exampleStep [VInt 0] [])) = [[(''DepthU'', VInt 0)]]"
    by (simp add: exampleCollaborators_def exampleStep_def)
  have h: "\<forall>perm \<in> set (constructForkPermutations (exampleCollaborators 0 [])
                          (forkParams (exampleStep [VInt 0] []))).
             \<not> Valid (exampleCollaborators 0 [])
                 (forkedSolutionObject (exampleCollaborators 0 []) exampleProblemType
                    (constantParams (exampleStep [VInt 0] [])) perm)"
    unfolding perms using v by simp
  have k: "fst (generateCustomKernelSolutions (exampleCollaborators 0 []) exampleProblemType
          (customKernels (exampleStep [VInt 0] []))
          (\<not> customKernelWildcard (exampleStep [VInt 0] [])) exampleWorld) = Inr []"
    by (simp add: generateCustomKernelSolutions_def exampleStep_def)
  have f: "PrintSolutionRejectionReason exampleWorld"
    by (simp add: exampleWorld_def)
  note t = enumerateSolutions_all_forks_invalid [OF h, of exampleWorld "VBool False" "(None, 0)"]
  from t k f have
    "fst (enumerateSolutions (exampleCollaborators 0 []) exampleProblemType
          (exampleStep [VInt 0] []) exampleWorld) =
     Inl (PrintExit (ZeroValidSolutions True))"
    "fst (benchmarkStepBody (exampleCollaborators 0 []) exampleProblemType (VBool False)
          (exampleStep [VInt 0] []) (None, 0) exampleWorld) =
     Inl (PrintExit (ZeroValidSolutions True))"
    by simp_all
  with v k show ?thesis
    by (intro conjI)
qed




end
